theory Spec2Isabelle
  imports Complex_Main
begin

section \<open>SQLAtomStorage: the SQL-backed atom store\<close>

text \<open>
  A shallow embedding of \<^verbatim>\<open>opencog/persist/sql/multi-driver/SQLAtomStorage.cc\<close>.
  Strings are byte lists. UUIDs and VUIDs (\<^verbatim>\<open>unsigned long\<close>) are natural numbers, with
  the wrap-around at \<open>2 ^ 64\<close> written out where the counter is incremented.
\<close>

subsection \<open>Numbers as text\<close>

text \<open>
  A \<^verbatim>\<open>double\<close> is modelled by its value: the rational number it denotes when it is
  finite (\<open>Finite 0\<close> is the positive zero), the negative zero, an infinity or a NaN with
  its sign bit. Every double is such a value; the model does not round a rational to the
  nearest binary fraction.
\<close>

datatype double = Finite rat | MinusZero | Infinity bool | NaN bool

definition digit_char :: "nat \<Rightarrow> char" where
  "digit_char d = ''0123456789'' ! d"

text \<open>\<^verbatim>\<open>std::to_string\<close> of an unsigned integer, and \<^verbatim>\<open>%lu\<close>, \<^verbatim>\<open>%u\<close>: the decimal digits.\<close>

fun to_string_ulong :: "nat \<Rightarrow> string" where
  "to_string_ulong n =
     (if n < 10 then [digit_char n]
      else to_string_ulong (n div 10) @ [digit_char (n mod 10)])"

declare to_string_ulong.simps [simp del]

text \<open>The last six decimal digits of \<open>n\<close>, with the zeros on the left.\<close>

definition six_digits :: "nat \<Rightarrow> string" where
  "six_digits n =
     [digit_char (n div 100000 mod 10), digit_char (n div 10000 mod 10),
      digit_char (n div 1000 mod 10), digit_char (n div 100 mod 10),
      digit_char (n div 10 mod 10), digit_char (n mod 10)]"

text \<open>
  Rounding to the nearest integer, ties to the even one: what \<^verbatim>\<open>printf\<close> does to the
  exact value in the default rounding mode.
\<close>

definition round_half_even :: "rat \<Rightarrow> nat" where
  "round_half_even q =
     (let f = nat \<lfloor>q\<rfloor>; r = q - of_int \<lfloor>q\<rfloor>
      in if r < 1 / 2 then f
         else if 1 / 2 < r then f + 1
         else if even f then f else f + 1)"

text \<open>
  \<^verbatim>\<open>std::to_string(double)\<close> is \<^verbatim>\<open>sprintf("%f")\<close>. For a finite value: a sign, the integer
  part, a point and exactly six digits of the fraction (in the C locale). An infinity is
  written \<^verbatim>\<open>inf\<close> and a NaN \<^verbatim>\<open>nan\<close>, after the sign.
\<close>

definition to_string_finite :: "rat \<Rightarrow> string" where
  "to_string_finite v =
     (let n = round_half_even (\<bar>v\<bar> * 1000000)
      in (if v < 0 then ''-'' else []) @
         to_string_ulong (n div 1000000) @ ''.'' @ six_digits (n mod 1000000))"

fun to_string_double :: "double \<Rightarrow> string" where
  "to_string_double (Finite v) = to_string_finite v"
| "to_string_double MinusZero = ''-0.000000''"
| "to_string_double (Infinity neg) = (if neg then ''-inf'' else ''inf'')"
| "to_string_double (NaN neg) = (if neg then ''-nan'' else ''nan'')"

text \<open>
  \<^verbatim>\<open>snprintf\<close> with the format \<^verbatim>\<open>%12.8g\<close>: eight significant digits; with the decimal
  exponent \<open>x\<close> of the rounded value, fixed notation when \<open>-4 \<le> x < 8\<close> and scientific
  notation otherwise; the zeros at the end of the fraction are dropped, and the point with
  them when nothing is left; blanks on the left fill the text up to twelve characters.
\<close>

fun ceil_log10 :: "nat \<Rightarrow> nat" where
  "ceil_log10 n = (if n \<le> 1 then 0 else Suc (ceil_log10 ((n + 9) div 10)))"

declare ceil_log10.simps [simp del]

text \<open>The decimal exponent of \<open>a > 0\<close>: the \<open>e\<close> with \<open>10 ^ e \<le> a < 10 ^ (e + 1)\<close>.\<close>

definition decimal_exponent :: "rat \<Rightarrow> int" where
  "decimal_exponent a =
     (if 1 \<le> a then int (length (to_string_ulong (nat \<lfloor>a\<rfloor>))) - 1
      else - int (ceil_log10 (nat \<lceil>1 / a\<rceil>)))"

definition strip_zeros :: "string \<Rightarrow> string" where
  "strip_zeros f = rev (dropWhile (\<lambda>c. c = CHR ''0'') (rev f))"

definition fraction_part :: "string \<Rightarrow> string" where
  "fraction_part f = (if strip_zeros f = [] then [] else ''.'' @ strip_zeros f)"

definition format_g8 :: "rat \<Rightarrow> string" where
  "format_g8 a =
     (let e0 = decimal_exponent a;
          m0 = round_half_even
                 (if 7 \<le> e0 then a / 10 ^ nat (e0 - 7) else a * 10 ^ nat (7 - e0));
          m = (if m0 = 100000000 then 10000000 else m0);
          x = (if m0 = 100000000 then e0 + 1 else e0);
          ds = to_string_ulong m
      in if - 4 \<le> x \<and> x < 8 then
           (if 0 \<le> x then take (nat x + 1) ds @ fraction_part (drop (nat x + 1) ds)
            else ''0'' @ fraction_part (replicate (nat (- x - 1)) CHR ''0'' @ ds))
         else take 1 ds @ fraction_part (drop 1 ds) @ ''e'' @ (if x < 0 then ''-'' else ''+'')
              @ (if \<bar>x\<bar> < 10 then ''0'' else []) @ to_string_ulong (nat \<bar>x\<bar>))"

fun format_g :: "double \<Rightarrow> string" where
  "format_g (Finite v) =
     (if v = 0 then ''0'' else (if v < 0 then ''-'' else []) @ format_g8 \<bar>v\<bar>)"
| "format_g MinusZero = ''-0''"
| "format_g (Infinity neg) = (if neg then ''-inf'' else ''inf'')"
| "format_g (NaN neg) = (if neg then ''-nan'' else ''nan'')"

definition snprintf_12_8g :: "double \<Rightarrow> string" where
  "snprintf_12_8g fval =
     replicate (12 - length (format_g fval)) CHR '' '' @ format_g fval"

text \<open>Reading numbers: the digits, the blanks of \<^verbatim>\<open>isspace\<close>, and the value of a digit string.\<close>

definition is_digit :: "char \<Rightarrow> bool" where
  "is_digit c = (c \<in> set ''0123456789'')"

definition is_space :: "char \<Rightarrow> bool" where
  "is_space c = (c \<in> set [CHR '' '', CHR 0x09, CHR 0x0A, CHR 0x0B, CHR 0x0C, CHR 0x0D])"

definition digit_val :: "char \<Rightarrow> nat" where
  "digit_val c = of_char c - 48"

fun digits_val :: "nat \<Rightarrow> string \<Rightarrow> nat" where
  "digits_val acc [] = acc"
| "digits_val acc (c # cs) = digits_val (acc * 10 + digit_val c) cs"

text \<open>
  \<^verbatim>\<open>strtod\<close>: blanks, a sign, and then \<^verbatim>\<open>infinity\<close>, \<^verbatim>\<open>inf\<close> or \<^verbatim>\<open>nan\<close> in any case, or a
  decimal numeral: digits, a point and digits, and an exponent when digits follow its
  letter. Without a digit nothing is converted and the position stays. Hexadecimal
  numerals and the bracket after \<^verbatim>\<open>nan\<close> are left out, and so is the range of a double.
\<close>

definition to_lower :: "char \<Rightarrow> char" where
  "to_lower c =
     (if c \<in> set ''ABCDEFGHIJKLMNOPQRSTUVWXYZ'' then char_of (of_char c + (32::nat)) else c)"

definition prefix_ci :: "string \<Rightarrow> string \<Rightarrow> bool" where
  "prefix_ci w p = (map to_lower (take (length w) p) = w)"

definition skip_sign :: "string \<Rightarrow> string" where
  "skip_sign q = (if q \<noteq> [] \<and> (hd q = CHR ''-'' \<or> hd q = CHR ''+'') then tl q else q)"

text \<open>The exponent part at \<open>q\<close>: the exponent and the rest, or \<open>None\<close> when there is none.\<close>

definition exponent_part :: "string \<Rightarrow> (int \<times> string) option" where
  "exponent_part q =
     (if q \<noteq> [] \<and> (hd q = CHR ''e'' \<or> hd q = CHR ''E'') then
        (let r = tl q;
             neg = (r \<noteq> [] \<and> hd r = CHR ''-'');
             r1 = skip_sign r;
             ds = takeWhile is_digit r1
         in if ds = [] then None
            else Some ((if neg then - 1 else 1) * int (digits_val 0 ds), dropWhile is_digit r1))
      else None)"

definition mantissa_end :: "string \<Rightarrow> string" where
  "mantissa_end q1 =
     (let q2 = dropWhile is_digit q1
      in if q2 \<noteq> [] \<and> hd q2 = CHR ''.'' then dropWhile is_digit (tl q2) else q2)"

definition strtod_decimal :: "bool \<Rightarrow> string \<Rightarrow> string \<Rightarrow> double \<times> string" where
  "strtod_decimal neg p q1 =
     (let ip = takeWhile is_digit q1;
          q2 = dropWhile is_digit q1;
          fp = (if q2 \<noteq> [] \<and> hd q2 = CHR ''.'' then takeWhile is_digit (tl q2) else []);
          q3 = mantissa_end q1;
          m = of_nat (digits_val 0 ip) + of_nat (digits_val 0 fp) / 10 ^ length fp
      in if ip = [] \<and> fp = [] then (Finite 0, p)
         else
           (case exponent_part q3 of
              None \<Rightarrow> (if m = 0 \<and> neg then MinusZero else Finite ((if neg then - 1 else 1) * m), q3)
            | Some (e, q4) \<Rightarrow>
                (if m = 0 \<and> neg then MinusZero
                 else Finite ((if neg then - 1 else 1) * m
                        * (if 0 \<le> e then 10 ^ nat e else 1 / 10 ^ nat (- e))), q4)))"

definition strtod :: "string \<Rightarrow> double \<times> string" where
  "strtod p =
     (let q = dropWhile is_space p;
          neg = (q \<noteq> [] \<and> hd q = CHR ''-'');
          q1 = skip_sign q
      in if prefix_ci ''infinity'' q1 then (Infinity neg, drop 8 q1)
         else if prefix_ci ''inf'' q1 then (Infinity neg, drop 3 q1)
         else if prefix_ci ''nan'' q1 then (NaN neg, drop 3 q1)
         else strtod_decimal neg p q1)"

lemma length_dropWhile_le': "length (dropWhile P xs) \<le> length xs"
  by (induction xs) auto

lemma skip_sign_length: "length (skip_sign q) \<le> length q"
  by (simp add: skip_sign_def)

lemma mantissa_end_length: "length (mantissa_end q) \<le> length q"
proof -
  let ?q2 = "dropWhile is_digit q"
  have c: "length ?q2 \<le> length q" by (rule length_dropWhile_le')
  have d: "length (dropWhile is_digit (tl ?q2)) \<le> length ?q2"
    using length_dropWhile_le' [of is_digit "tl ?q2"] by simp
  show ?thesis
    unfolding mantissa_end_def Let_def using c d by (simp del: dropWhile_eq_Nil_conv)
qed

lemma exponent_part_length: "exponent_part q = Some (e, r) \<Longrightarrow> length r \<le> length q"
proof -
  assume a: "exponent_part q = Some (e, r)"
  have "r = dropWhile is_digit (skip_sign (tl q))"
    using a by (auto simp: exponent_part_def Let_def split: if_splits)
  moreover have "length (dropWhile is_digit (skip_sign (tl q))) \<le> length (skip_sign (tl q))"
    by (rule length_dropWhile_le')
  moreover have "length (skip_sign (tl q)) \<le> length (tl q)" by (rule skip_sign_length)
  ultimately show ?thesis by simp
qed

lemma strtod_decimal_length:
  assumes "length q1 \<le> length p"
  shows "length (snd (strtod_decimal neg p q1)) \<le> length p"
proof -
  have q3: "length (mantissa_end q1) \<le> length p"
    using assms mantissa_end_length [of q1] by linarith
  show ?thesis
  proof (cases "exponent_part (mantissa_end q1)")
    case None
    then show ?thesis using q3 unfolding strtod_decimal_def Let_def by simp
  next
    case (Some a)
    obtain e q4 where a: "a = (e, q4)" by (cases a)
    have "length q4 \<le> length (mantissa_end q1)"
      using Some a exponent_part_length by simp
    then have "length q4 \<le> length p" using q3 by linarith
    then show ?thesis using Some a unfolding strtod_decimal_def Let_def by simp
  qed
qed

lemma strtod_length: "length (snd (strtod p)) \<le> length p"
proof -
  have "length (skip_sign (dropWhile is_space p)) \<le> length (dropWhile is_space p)"
    by (rule skip_sign_length)
  moreover have "length (dropWhile is_space p) \<le> length p" by (rule length_dropWhile_le')
  ultimately have q1: "length (skip_sign (dropWhile is_space p)) \<le> length p" by linarith
  show ?thesis
    unfolding strtod_def Let_def
    using q1 strtod_decimal_length [OF q1] by auto
qed

lemma strtod_tl: "(flt, rest) = strtod p \<Longrightarrow> rest \<noteq> [] \<Longrightarrow> length (tl rest) < length p"
proof -
  assume a: "(flt, rest) = strtod p" and b: "rest \<noteq> []"
  from a have "rest = snd (strtod p)" by (metis snd_conv)
  moreover have "length (tl rest) < length rest" using b by (cases rest) simp_all
  ultimately show ?thesis using strtod_length [of p] by simp
qed

subsection \<open>Array literals\<close>

definition squote :: char where
  "squote = CHR 0x27"

text \<open>
  \<^verbatim>\<open>float_to_string\<close>: the loop over the elements, with its \<^verbatim>\<open>not_first\<close> flag.
\<close>

fun float_elems :: "bool \<Rightarrow> double list \<Rightarrow> string" where
  "float_elems not_first [] = []"
| "float_elems not_first (v # vs) =
     (if not_first then '', '' else []) @ to_string_double v @ float_elems True vs"

definition float_to_string :: "double list \<Rightarrow> string" where
  "float_to_string fvle = [squote] @ ''{'' @ float_elems False fvle @ ''}'' @ [squote]"





subsection \<open>The type-code map\<close>

text \<open>
  The class server is not part of the file; it is a parameter: the names of the runtime
  types, the type with code \<open>t\<close> at position \<open>t\<close>, and the code \<^verbatim>\<open>NOTYPE\<close> that
  \<^verbatim>\<open>getType\<close> returns for a name it does not know.
\<close>

record ClassServer =
  type_names :: "string list"
  NOTYPE :: nat

definition getNumberOfClasses :: "ClassServer \<Rightarrow> nat" where
  "getNumberOfClasses cs = length (type_names cs)"

definition getTypeName :: "ClassServer \<Rightarrow> nat \<Rightarrow> string" where
  "getTypeName cs t = type_names cs ! t"

fun index_of :: "string \<Rightarrow> string list \<Rightarrow> nat option" where
  "index_of x [] = None"
| "index_of x (y # ys) =
     (if x = y then Some 0 else map_option Suc (index_of x ys))"

definition getType :: "ClassServer \<Rightarrow> string \<Rightarrow> nat" where
  "getType cs tname = (case index_of tname (type_names cs) of None \<Rightarrow> NOTYPE cs | Some t \<Rightarrow> t)"

text \<open>
  Modelled from the spec: the macro \<^verbatim>\<open>TYPEMAP_SZ\<close> is declared in the header, which is not
  among the sources; the arrays are "sized to a maximum (e.g. 1 << 16)".
\<close>

definition TYPEMAP_SZ :: nat where
  "TYPEMAP_SZ = 65536"

text \<open>
  The three arrays of the map and the table \<^verbatim>\<open>TypeCodes\<close> of the database, a list of rows
  \<open>(type, typename)\<close>. \<open>storing_typemap\<close> holds \<open>-1\<close> where no code is known.
\<close>

record typemaps =
  loading_typemap :: "nat \<Rightarrow> nat"
  storing_typemap :: "nat \<Rightarrow> int"
  db_typename :: "nat \<Rightarrow> string option"
  TypeCodes :: "(nat \<times> string) list"
  type_map_was_loaded :: bool

text \<open>
  \<^verbatim>\<open>set_typemap\<close>. A write outside an array is undefined behaviour in the source and
  \<open>None\<close> here.
\<close>

definition set_typemap :: "ClassServer \<Rightarrow> nat \<Rightarrow> string \<Rightarrow> typemaps \<Rightarrow> typemaps option" where
  "set_typemap cs dbval tname st =
     (let realtype = getType cs tname
      in if dbval < TYPEMAP_SZ \<and> realtype < TYPEMAP_SZ
         then Some (st\<lparr>loading_typemap := (loading_typemap st)(dbval := realtype),
                      storing_typemap := (storing_typemap st)(realtype := int dbval),
                      db_typename := (db_typename st)(dbval \<mapsto> tname)\<rparr>)
         else None)"

text \<open>\<^verbatim>\<open>type_cb\<close> over the rows that \<^verbatim>\<open>SELECT * FROM TypeCodes\<close> returns.\<close>

fun type_cb_rows :: "ClassServer \<Rightarrow> (nat \<times> string) list \<Rightarrow> typemaps \<Rightarrow> typemaps option" where
  "type_cb_rows cs [] st = Some st"
| "type_cb_rows cs ((itype, tname) # rows) st =
     (case set_typemap cs itype tname st of
        None \<Rightarrow> None
      | Some st' \<Rightarrow> type_cb_rows cs rows st')"

text \<open>
  The search for the lowest unused index: the loop starts at \<open>sqid = 0\<close> and leaves
  \<open>sqid = TYPEMAP_SZ\<close> when every index is in use.
\<close>

function first_unused :: "(nat \<Rightarrow> string option) \<Rightarrow> nat \<Rightarrow> nat" where
  "first_unused names sqid =
     (if sqid < TYPEMAP_SZ \<and> names sqid \<noteq> None then first_unused names (sqid + 1) else sqid)"
  by pat_completeness auto
termination
  by (relation "measure (\<lambda>(names, sqid). TYPEMAP_SZ - sqid)") auto

declare first_unused.simps [simp del]

text \<open>
  \<^verbatim>\<open>INSERT INTO TypeCodes\<close>: both columns are \<^verbatim>\<open>UNIQUE\<close>, so the server rejects a row
  whose code or name is in the table. The source does not look at the result.
\<close>

definition insert_TypeCodes :: "nat \<Rightarrow> string \<Rightarrow> (nat \<times> string) list \<Rightarrow> (nat \<times> string) list" where
  "insert_TypeCodes sqid tname rows =
     (if sqid \<in> fst ` set rows \<or> tname \<in> snd ` set rows then rows
      else rows @ [(sqid, tname)])"

text \<open>The body of the loop over the runtime types, for the type \<open>t\<close>.\<close>

definition typemap_type :: "ClassServer \<Rightarrow> nat \<Rightarrow> typemaps \<Rightarrow> typemaps option" where
  "typemap_type cs t st =
     (if storing_typemap st t = -1 then
        (let tname = getTypeName cs t;
             sqid = (if db_typename st t \<noteq> None \<and> loading_typemap st t \<noteq> t
                     then first_unused (db_typename st) 0 else t)
         in case set_typemap cs sqid tname st of
              None \<Rightarrow> None
            | Some st' \<Rightarrow> Some (st'\<lparr>TypeCodes := insert_TypeCodes sqid tname (TypeCodes st')\<rparr>))
      else Some st)"

function typemap_types :: "ClassServer \<Rightarrow> nat \<Rightarrow> typemaps \<Rightarrow> typemaps option" where
  "typemap_types cs t st =
     (if t < getNumberOfClasses cs then
        (case typemap_type cs t st of
           None \<Rightarrow> None
         | Some st' \<Rightarrow> typemap_types cs (t + 1) st')
      else Some st)"
  by pat_completeness auto
termination
  by (relation "measure (\<lambda>(cs, t, st). getNumberOfClasses cs - t)") auto

declare typemap_types.simps [simp del]

text \<open>
  \<^verbatim>\<open>setup_typemap\<close>: nothing when the map is loaded; otherwise the arrays are cleared, the
  rows of \<^verbatim>\<open>TypeCodes\<close> are read, every runtime type without a code gets one, and the flag
  is set last.
\<close>

definition setup_typemap :: "ClassServer \<Rightarrow> typemaps \<Rightarrow> typemaps option" where
  "setup_typemap cs st =
     (if type_map_was_loaded st then Some st
      else
        (let st0 = st\<lparr>loading_typemap := (\<lambda>i. NOTYPE cs),
                      storing_typemap := (\<lambda>i. -1),
                      db_typename := (\<lambda>i. None)\<rparr>
         in case type_cb_rows cs (TypeCodes st0) st0 of
              None \<Rightarrow> None
            | Some st1 \<Rightarrow>
                (case typemap_types cs 0 st1 of
                   None \<Rightarrow> None
                 | Some st2 \<Rightarrow> Some (st2\<lparr>type_map_was_loaded := True\<rparr>))))"


text \<open>
  A database code is in use before the type \<open>k\<close> is handled when a row of the table read
  at the start has it, or a runtime type below \<open>k\<close> was given it. \<open>c\<close> is the lowest
  unused slot when it is not in use and every code below it is.
\<close>

definition slot_used :: "(nat \<times> string) list \<Rightarrow> (nat \<Rightarrow> int) \<Rightarrow> nat \<Rightarrow> nat \<Rightarrow> bool" where
  "slot_used tc0 stor k i \<longleftrightarrow> i \<in> fst ` set tc0 \<or> (\<exists>t'<k. stor t' = int i)"

definition lowest_unused :: "(nat \<times> string) list \<Rightarrow> (nat \<Rightarrow> int) \<Rightarrow> nat \<Rightarrow> nat \<Rightarrow> bool" where
  "lowest_unused tc0 stor k c \<longleftrightarrow> \<not> slot_used tc0 stor k c \<and> (\<forall>i<c. slot_used tc0 stor k i)"

text \<open>
  The invariant of the loop over the runtime types, before the type \<open>t\<close> is handled, for
  a table that held the row \<open>(k, foo)\<close> at the start.
\<close>

definition typemap_inv ::
  "ClassServer \<Rightarrow> (nat \<times> string) list \<Rightarrow> nat \<Rightarrow> string \<Rightarrow> nat \<Rightarrow> typemaps \<Rightarrow> bool" where
  "typemap_inv cs tc0 k foo t S \<longleftrightarrow>
     db_typename S k = Some foo \<and> loading_typemap S k = NOTYPE cs
   \<and> (\<forall>i. db_typename S i \<noteq> None \<longleftrightarrow>
          (i \<in> fst ` set tc0 \<or> (\<exists>t'<t. storing_typemap S t' = int i)))
   \<and> (\<forall>u i. storing_typemap S u = int i \<longrightarrow> db_typename S i \<noteq> None)
   \<and> (\<forall>i. db_typename S i \<noteq> None \<longrightarrow> i < TYPEMAP_SZ)
   \<and> card {i. i < TYPEMAP_SZ \<and> db_typename S i \<noteq> None} \<le> length tc0 + t
   \<and> set tc0 \<subseteq> set (TypeCodes S)
   \<and> fst ` set (TypeCodes S) \<subseteq> {i. db_typename S i \<noteq> None}
   \<and> snd ` set (TypeCodes S) \<subseteq> snd ` set tc0 \<union> (\<lambda>t'. type_names cs ! t') ` {..<t}
   \<and> (t \<le> k \<longrightarrow> storing_typemap S k = -1)
   \<and> (k < t \<longrightarrow>
        (\<exists>c. storing_typemap S k = int c \<and> c \<noteq> k
           \<and> (c, type_names cs ! k) \<in> set (TypeCodes S)
           \<and> lowest_unused tc0 (storing_typemap S) k c))"


subsection \<open>Atoms, values and the state of the store\<close>

text \<open>
  A handle is modelled by the atom it stands for: a node or a link. What the atom space
  attaches to an atom (truth value, values, atom table) is read through the record
  \<open>atomspace\<close>; the atom space is not part of the file.
\<close>

datatype Atom = Node nat string | Link nat "Atom list"

datatype Value = FloatValue "double list" | StringValue "string list" | LinkValue "Value list"

text \<open>
  A truth value carries what its getters return: mean, confidence and count, or for an
  indefinite truth value L, U and the confidence level. \<open>OtherTV t\<close> is a truth value
  of another type, with type code \<open>t\<close>.
\<close>

datatype TruthValue =
    SimpleTV double double double
  | CountTV double double double
  | ProbabilisticTV double double double
  | IndefiniteTV double double double
  | OtherTV nat

datatype AtomTable = AtomTable nat "AtomTable option"

fun get_uuid_table :: "AtomTable \<Rightarrow> nat" where
  "get_uuid_table (AtomTable u env) = u"

fun get_environ :: "AtomTable \<Rightarrow> AtomTable option" where
  "get_environ (AtomTable u env) = env"

record atomspace =
  getTruthValue :: "Atom \<Rightarrow> TruthValue option"
  getKeyValues :: "Atom \<Rightarrow> (Atom \<times> Value) list"
  getAtomTable :: "Atom \<Rightarrow> AtomTable option"

text \<open>
  The type codes that the file names but does not define are parameters.
\<close>

record atom_types =
  FLOAT_VALUE :: nat
  STRING_VALUE :: nat
  LINK_VALUE :: nat
  SIMPLE_TRUTH_VALUE :: nat
  COUNT_TRUTH_VALUE :: nat
  INDEFINITE_TRUTH_VALUE :: nat
  PROBABILISTIC_TRUTH_VALUE :: nat

fun getType_Value :: "atom_types \<Rightarrow> Value \<Rightarrow> nat" where
  "getType_Value ty (FloatValue fs) = FLOAT_VALUE ty"
| "getType_Value ty (StringValue ss) = STRING_VALUE ty"
| "getType_Value ty (LinkValue vs) = LINK_VALUE ty"

text \<open>
  An SQL statement is kept as its kind and what the macro \<^verbatim>\<open>STMT\<close> collects: the column
  names with the text of their values, in order. A \<^verbatim>\<open>SELECT\<close> reads a table of the state
  and is not a statement of its own here.
\<close>

datatype sql =
    BEGIN
  | COMMIT
  | INSERT_Values "(string \<times> string) list"
  | DELETE_Values nat
  | INSERT_Valuations "(string \<times> string) list"
  | DELETE_Valuations nat nat
  | INSERT_Atoms "(string \<times> string) list"
  | UPDATE_Atoms "(string \<times> string) list" nat
  | INSERT_Spaces nat nat

definition STMT :: "string \<Rightarrow> string \<Rightarrow> (string \<times> string) list \<Rightarrow> (string \<times> string) list" where
  "STMT colname val cols = cols @ [(colname, val)]"

definition STMTI :: "string \<Rightarrow> nat \<Rightarrow> (string \<times> string) list \<Rightarrow> (string \<times> string) list" where
  "STMTI colname ival cols = STMT colname (to_string_ulong ival) cols"

text \<open>
  A row of \<^verbatim>\<open>Values\<close> or \<^verbatim>\<open>Valuations\<close> as the callbacks of \<^verbatim>\<open>Response\<close> see it: the type
  and the text of the three array columns (\<open>None\<close> for an SQL NULL).
\<close>

record value_row =
  vtype :: nat
  fltval :: "string option"
  strval :: "string option"
  lnkval :: "string option"

text \<open>
  The tables of the database and the members of \<^verbatim>\<open>SQLAtomStorage\<close>. \<^verbatim>\<open>Values\<close> is keyed by
  its primary key; a row of \<^verbatim>\<open>Valuations\<close> is \<open>(key, atom, columns)\<close>; a row of \<^verbatim>\<open>Atoms\<close>
  is its uuid and its columns; a row of \<^verbatim>\<open>Spaces\<close> is \<open>(space, parent)\<close>.
  \<open>Atoms_columns\<close> holds the names of the columns that the table \<^verbatim>\<open>Atoms\<close> was created with.
  Modelled from the spec: the TLB is not among the sources; it maps handles to
  identifiers (\<open>tlb_uuid\<close>) and allocates fresh ones upwards (\<open>tlb_brk\<close>).
\<close>

record storage =
  Spaces :: "(nat \<times> nat) list"
  Atoms :: "(nat \<times> (string \<times> string) list) list"
  Atoms_columns :: "string list"
  Valuations :: "(nat \<times> nat \<times> value_row) list"
  Values :: "nat \<rightharpoonup> value_row"
  sql_log :: "sql list"
  next_valid :: nat
  tlb_uuid :: "Atom \<rightharpoonup> nat"
  tlb_brk :: nat
  local_id_cache :: "nat set"
  id_create_cache :: "nat set"
  table_id_cache :: "nat set"
  typemap :: typemaps
  max_height :: nat
  store_count :: nat
  num_node_updates :: nat
  num_node_inserts :: nat
  num_link_updates :: nat
  num_link_inserts :: nat

subsection \<open>The SQL server\<close>

text \<open>
  The server is not part of the file. The model covers what the store sends: integer
  literals within the range of their column (\<^verbatim>\<open>BIGINT\<close>, \<^verbatim>\<open>SMALLINT\<close>), and array literals
  \<open>'{e1, e2, ...}'\<close> whose elements hold no quote, backslash, brace or apostrophe. An array
  is returned in the server's notation: the elements without the blanks around them,
  separated by commas, an element with a blank inside in double quotes; a number is
  returned as the text it was given. A statement outside this fragment, or one that breaks
  a constraint of the schema, is rejected.
\<close>

definition sql_integer :: "nat \<Rightarrow> string \<Rightarrow> nat option" where
  "sql_integer bits e =
     (if e \<noteq> [] \<and> list_all is_digit e \<and> digits_val 0 e < 2 ^ (bits - 1)
      then Some (digits_val 0 e) else None)"

definition sql_bigint :: "string \<Rightarrow> nat option" where
  "sql_bigint e = sql_integer 64 e"

definition sql_smallint :: "string \<Rightarrow> nat option" where
  "sql_smallint e = sql_integer 16 e"

definition is_bigint_text :: "string \<Rightarrow> bool" where
  "is_bigint_text e = (sql_bigint e \<noteq> None)"

text \<open>
  The text of a float: what \<^verbatim>\<open>strtod\<close> converts as a whole. As a literal of its own in a
  statement it must be a number.
\<close>

definition is_float_text :: "string \<Rightarrow> bool" where
  "is_float_text e = (e \<noteq> [] \<and> \<not> is_space (hd e) \<and> snd (strtod e) = [])"

definition is_numeric_literal :: "string \<Rightarrow> bool" where
  "is_numeric_literal e =
     (is_float_text e \<and> hd e \<noteq> CHR ''+''
      \<and> (case fst (strtod e) of Finite r \<Rightarrow> True | MinusZero \<Rightarrow> True | _ \<Rightarrow> False))"

fun split_on :: "char \<Rightarrow> string \<Rightarrow> string list" where
  "split_on d [] = [[]]"
| "split_on d (c # cs) =
     (if c = d then [] # split_on d cs
      else (case split_on d cs of [] \<Rightarrow> [[c]] | e # es \<Rightarrow> (c # e) # es))"

definition trim :: "string \<Rightarrow> string" where
  "trim e = rev (dropWhile is_space (rev (dropWhile is_space e)))"

definition sql_array :: "(string \<Rightarrow> bool) \<Rightarrow> string \<Rightarrow> string list option" where
  "sql_array ok lit =
     (if 4 \<le> length lit \<and> take 2 lit = [squote, CHR ''{'']
         \<and> drop (length lit - 2) lit = [CHR ''}'', squote]
      then
        (let inner = take (length lit - 4) (drop 2 lit)
         in if list_ex (\<lambda>c. c \<in> set [squote, CHR 0x22, CHR 0x5C, CHR ''{'', CHR ''}'']) inner
            then None
            else
              (let es = map trim (split_on CHR '','' inner)
               in if es = [[]] then Some []
                  else if list_all (\<lambda>e. e \<noteq> [] \<and> ok e) es then Some es else None))
      else None)"

definition quote_elem :: "string \<Rightarrow> string" where
  "quote_elem e = (if list_ex is_space e then [CHR 0x22] @ e @ [CHR 0x22] else e)"

fun commas :: "string list \<Rightarrow> string" where
  "commas [] = []"
| "commas [x] = x"
| "commas (x # y # ys) = x @ '','' @ commas (y # ys)"

definition sql_array_out :: "string list \<Rightarrow> string" where
  "sql_array_out es = ''{'' @ commas (map quote_elem es) @ ''}''"

text \<open>An array column of an \<^verbatim>\<open>INSERT\<close>: absent (NULL), or the text the server returns.\<close>

definition array_column ::
  "(string \<Rightarrow> bool) \<Rightarrow> string \<Rightarrow> (string \<times> string) list \<Rightarrow> string option option" where
  "array_column ok colname cols =
     (case map_of cols colname of
        None \<Rightarrow> Some None
      | Some lit \<Rightarrow> map_option (\<lambda>es. Some (sql_array_out es)) (sql_array ok lit))"

definition server_value_row :: "(string \<times> string) list \<Rightarrow> value_row option" where
  "server_value_row cols =
     (case (Option.bind (map_of cols ''type'') sql_smallint,
            array_column is_float_text ''floatvalue'' cols,
            array_column (\<lambda>e. True) ''stringvalue'' cols,
            array_column is_bigint_text ''linkvalue'' cols) of
        (Some ty, Some f, Some t, Some l) \<Rightarrow>
          Some \<lparr>vtype = ty, fltval = f, strval = t, lnkval = l\<rparr>
      | _ \<Rightarrow> None)"

text \<open>
  \<^verbatim>\<open>Response::exec\<close>: the statement is sent (and logged here); the result tells whether
  a record set came back. Transactions are not modelled: the calls are sequential.
  \<^verbatim>\<open>Values.vuid\<close>, \<^verbatim>\<open>Atoms.uuid\<close> and \<^verbatim>\<open>Spaces.space\<close> are primary keys, \<^verbatim>\<open>Valuations\<close> is
  unique in \<open>(key, atom)\<close> and both refer to \<^verbatim>\<open>Atoms\<close>, \<^verbatim>\<open>Atoms.space\<close> refers to \<^verbatim>\<open>Spaces\<close>,
  and \<^verbatim>\<open>Atoms\<close> is unique in \<open>(type, name)\<close> and in \<open>(type, outgoing)\<close>.
\<close>

definition same_columns ::
  "string \<Rightarrow> string \<Rightarrow> (string \<times> string) list \<Rightarrow> (string \<times> string) list \<Rightarrow> bool" where
  "same_columns c1 c2 r r' =
     (map_of r c1 \<noteq> None \<and> map_of r c2 \<noteq> None
      \<and> map_of r c1 = map_of r' c1 \<and> map_of r c2 = map_of r' c2)"

text \<open>
  A statement on \<^verbatim>\<open>Atoms\<close> is refused when it names a column that the table does not have,
  or gives a column a text that is not of its type. The name of a node is not checked.
\<close>

definition Atoms_column_ok :: "string \<times> string \<Rightarrow> bool" where
  "Atoms_column_ok cv =
     (case cv of (c, v) \<Rightarrow>
        if c \<in> set [''uuid'', ''space''] then sql_bigint v \<noteq> None
        else if c \<in> set [''type'', ''tv_type'', ''type_tv'', ''height''] then sql_smallint v \<noteq> None
        else if c \<in> set [''stv_mean'', ''stv_confidence'', ''stv_count'']
          then is_numeric_literal (trim v)
        else if c = ''outgoing'' then sql_array is_bigint_text v \<noteq> None
        else True)"

definition Atoms_statement_ok :: "storage \<Rightarrow> (string \<times> string) list \<Rightarrow> bool" where
  "Atoms_statement_ok s cols =
     (list_all (\<lambda>cv. fst cv \<in> set (Atoms_columns s)) cols \<and> list_all Atoms_column_ok cols)"

definition exec :: "sql \<Rightarrow> storage \<Rightarrow> bool \<times> storage" where
  "exec st s =
     (let s1 = s\<lparr>sql_log := sql_log s @ [st]\<rparr>
      in case st of
        INSERT_Values cols \<Rightarrow>
          (case (Option.bind (map_of cols ''vuid'') sql_bigint, server_value_row cols) of
             (Some u, Some r) \<Rightarrow>
               if Values s u = None then (True, s1\<lparr>Values := (Values s)(u \<mapsto> r)\<rparr>)
               else (False, s1)
           | _ \<Rightarrow> (False, s1))
      | DELETE_Values u \<Rightarrow> (True, s1\<lparr>Values := (Values s)(u := None)\<rparr>)
      | INSERT_Valuations cols \<Rightarrow>
          (case (Option.bind (map_of cols ''key'') sql_bigint,
                 Option.bind (map_of cols ''atom'') sql_bigint, server_value_row cols) of
             (Some k, Some a, Some r) \<Rightarrow>
               if k \<in> fst ` set (Atoms s) \<and> a \<in> fst ` set (Atoms s)
                  \<and> \<not> list_ex (\<lambda>(k', a', r'). k' = k \<and> a' = a) (Valuations s)
               then (True, s1\<lparr>Valuations := Valuations s @ [(k, a, r)]\<rparr>)
               else (False, s1)
           | _ \<Rightarrow> (False, s1))
      | DELETE_Valuations k a \<Rightarrow>
          (True, s1\<lparr>Valuations := filter (\<lambda>(k', a', r'). \<not> (k' = k \<and> a' = a)) (Valuations s)\<rparr>)
      | INSERT_Atoms cols \<Rightarrow>
          (case (Option.bind (map_of cols ''uuid'') sql_bigint,
                 Option.bind (map_of cols ''space'') sql_bigint) of
             (Some u, Some sp) \<Rightarrow>
               if Atoms_statement_ok s cols
                  \<and> u \<notin> fst ` set (Atoms s) \<and> sp \<in> fst ` set (Spaces s)
                  \<and> \<not> list_ex (\<lambda>(u', r'). same_columns ''type'' ''name'' cols r'
                                     \<or> same_columns ''type'' ''outgoing'' cols r') (Atoms s)
               then (True, s1\<lparr>Atoms := Atoms s @ [(u, cols)]\<rparr>)
               else (False, s1)
           | _ \<Rightarrow> (False, s1))
      | UPDATE_Atoms cols u \<Rightarrow>
          if Atoms_statement_ok s cols
          then (True, s1\<lparr>Atoms := map (\<lambda>(u', r'). if u' = u
               then (u', filter (\<lambda>(c, v). c \<notin> fst ` set cols) r' @ cols) else (u', r')) (Atoms s)\<rparr>)
          else (False, s1)
      | INSERT_Spaces sp parent \<Rightarrow>
          if sp \<in> fst ` set (Spaces s) then (False, s1)
          else (True, s1\<lparr>Spaces := Spaces s @ [(sp, parent)]\<rparr>)
      | _ \<Rightarrow> (True, s1))"


subsection \<open>Encoding and decoding values\<close>

datatype error = IOException string | Undefined | OutOfFuel | Deadlock | NotModelled

text \<open>
  \<open>Undefined\<close> stands for undefined behaviour of the source (a read of an uninitialised
  member, a pointer that leaves its buffer, \<^verbatim>\<open>atoi\<close> out of range); \<open>OutOfFuel\<close> for a
  recursion that did not end within the given number of nested calls; \<open>Deadlock\<close> for a
  call that never returns because the thread waits for a mutex it holds itself;
  \<open>NotModelled\<close> for a path of the source that the model leaves out.
\<close>

fun string_elems :: "bool \<Rightarrow> string list \<Rightarrow> string" where
  "string_elems not_first [] = []"
| "string_elems not_first (v # vs) =
     (if not_first then '', '' else []) @ v @ string_elems True vs"

definition string_to_string :: "string list \<Rightarrow> string" where
  "string_to_string svle = [squote] @ ''{'' @ string_elems False svle @ ''}'' @ [squote]"

definition INVALID_UUID :: nat where
  "INVALID_UUID = 0"

definition getUUID :: "storage \<Rightarrow> Atom \<Rightarrow> nat" where
  "getUUID s h = (case tlb_uuid s h of None \<Rightarrow> INVALID_UUID | Some u \<Rightarrow> u)"

text \<open>
  \<^verbatim>\<open>storeValue\<close> and the loop of \<^verbatim>\<open>link_to_string\<close>, which stores every element of a link
  value as a value of its own. The counter \<^verbatim>\<open>_next_valid\<close> is an \<^verbatim>\<open>unsigned long\<close>.
\<close>

fun storeValue :: "atom_types \<Rightarrow> Value \<Rightarrow> storage \<Rightarrow> nat \<times> storage"
  and link_to_string :: "atom_types \<Rightarrow> Value list \<Rightarrow> storage \<Rightarrow> string \<times> storage"
  and link_elems :: "atom_types \<Rightarrow> bool \<Rightarrow> Value list \<Rightarrow> storage \<Rightarrow> string \<times> storage"
  where
  "storeValue ty (FloatValue fs) s =
     (let vuid = next_valid s;
          s1 = s\<lparr>next_valid := (next_valid s + 1) mod 2 ^ 64\<rparr>;
          cols = STMTI ''type'' (FLOAT_VALUE ty) (STMT ''vuid'' (to_string_ulong vuid) [])
      in (vuid, snd (exec (INSERT_Values (STMT ''floatvalue'' (float_to_string fs) cols)) s1)))"
| "storeValue ty (StringValue ss) s =
     (let vuid = next_valid s;
          s1 = s\<lparr>next_valid := (next_valid s + 1) mod 2 ^ 64\<rparr>;
          cols = STMTI ''type'' (STRING_VALUE ty) (STMT ''vuid'' (to_string_ulong vuid) [])
      in (vuid, snd (exec (INSERT_Values (STMT ''stringvalue'' (string_to_string ss) cols)) s1)))"
| "storeValue ty (LinkValue vs) s =
     (let vuid = next_valid s;
          s1 = s\<lparr>next_valid := (next_valid s + 1) mod 2 ^ 64\<rparr>;
          cols = STMTI ''type'' (LINK_VALUE ty) (STMT ''vuid'' (to_string_ulong vuid) [])
      in case link_to_string ty vs s1 of
           (lstr, s2) \<Rightarrow> (vuid, snd (exec (INSERT_Values (STMT ''linkvalue'' lstr cols)) s2)))"
| "link_to_string ty vs s =
     (case link_elems ty False vs s of
        (str, s') \<Rightarrow> ([squote] @ ''{'' @ str @ ''}'' @ [squote], s'))"
| "link_elems ty not_first [] s = ([], s)"
| "link_elems ty not_first (pap # paps) s =
     (case storeValue ty pap s of
        (vuid, s1) \<Rightarrow>
          (case link_elems ty True paps s1 of
             (str, s2) \<Rightarrow>
               ((if not_first then '', '' else []) @ to_string_ulong vuid @ str, s2)))"

text \<open>
  \<^verbatim>\<open>strchr\<close>: the text before the first occurrence of the character and the text after
  it, or \<open>None\<close> for the null pointer.
\<close>

fun strchr :: "string \<Rightarrow> char \<Rightarrow> (string \<times> string) option" where
  "strchr [] c = None"
| "strchr (x # xs) c =
     (if x = c then Some ([], xs) else map_option (\<lambda>(a, b). (x # a, b)) (strchr xs c))"

lemma strchr_length: "strchr p c = Some (a, b) \<Longrightarrow> length b < length p"
  by (induction p arbitrary: a) (auto split: if_splits)

definition dquote :: char where
  "dquote = CHR 0x22"

text \<open>
  The loop of \<^verbatim>\<open>doUnpackValue\<close> over a string array, from the position \<open>p\<close>. The element
  ends at the next comma or else at the next closing brace; a quote mark at its start and
  one before its end are wiped out. Without comma and brace \<open>p\<close> leaves the buffer.
\<close>

function unpack_strings :: "string \<Rightarrow> string list option" where
  "unpack_strings p =
     (if p = [] \<or> hd p = CHR ''}'' then Some []
      else
        (case (case strchr p CHR '','' of Some r \<Rightarrow> Some r | None \<Rightarrow> strchr p CHR ''}'') of
           None \<Rightarrow> None
         | Some (e, rest) \<Rightarrow>
             (let e1 = (if e \<noteq> [] \<and> last e = dquote then butlast e else e);
                  e2 = (if hd p = dquote then tl e1 else e1)
              in map_option (Cons e2) (unpack_strings rest))))"
  by pat_completeness auto
termination
  by (relation "measure length") (auto dest: strchr_length split: option.splits)

declare unpack_strings.simps [simp del]

text \<open>
  \<^verbatim>\<open>strdup\<close> of a null pointer does not return. A text that starts with a comma makes the
  loop read the byte before the buffer.
\<close>

definition unpack_string_array :: "string option \<Rightarrow> string list option" where
  "unpack_string_array text =
     (case text of
        None \<Rightarrow> None
      | Some t \<Rightarrow>
          (case t of
             [] \<Rightarrow> Some []
           | c # r \<Rightarrow>
               if c = CHR ''{'' then unpack_strings r
               else if c = CHR '','' then None
               else unpack_strings t))"

text \<open>
  The loop over a float array: \<^verbatim>\<open>strtod\<close>, then one byte is skipped. When the number ends
  the text, the skip leaves the buffer.
\<close>

function unpack_floats :: "string \<Rightarrow> double list option" where
  "unpack_floats p =
     (if p = [] \<or> hd p = CHR ''}'' then Some []
      else
        (case strtod p of
           (flt, rest) \<Rightarrow>
             if rest = [] then None
             else map_option (Cons flt) (unpack_floats (tl rest))))"
  by pat_completeness auto
termination
  by (relation "measure length") (auto dest: strtod_tl)

declare unpack_floats.simps [simp del]

definition skip_brace :: "string \<Rightarrow> string" where
  "skip_brace t = (if t \<noteq> [] \<and> hd t = CHR ''{'' then tl t else t)"

definition unpack_float_array :: "string option \<Rightarrow> double list option" where
  "unpack_float_array text =
     (case text of None \<Rightarrow> Some [] | Some t \<Rightarrow> unpack_floats (skip_brace t))"

text \<open>
  \<^verbatim>\<open>atoi\<close>: blanks, a sign, digits. A value outside \<^verbatim>\<open>int\<close> is undefined behaviour. The
  \<^verbatim>\<open>int\<close> is then converted to a \<^verbatim>\<open>VUID\<close>, an \<^verbatim>\<open>unsigned long\<close>.
\<close>

definition INT_MAX :: nat where
  "INT_MAX = 2147483647"

definition atoi :: "string \<Rightarrow> int option" where
  "atoi p =
     (let q = dropWhile is_space p;
          neg = (q \<noteq> [] \<and> hd q = CHR ''-'');
          q1 = skip_sign q;
          n = digits_val 0 (takeWhile is_digit q1)
      in if neg then (if n \<le> INT_MAX + 1 then Some (- int n) else None)
         else (if n \<le> INT_MAX then Some (int n) else None))"

definition vuid_of_int :: "int \<Rightarrow> nat" where
  "vuid_of_int i = nat (i mod 2 ^ 64)"

text \<open>
  The positions that the loop over a link array visits: \<^verbatim>\<open>atoi\<close> reads at \<open>p\<close>, then \<open>p\<close>
  moves behind the next comma, or the loop ends with the null pointer.
\<close>

function link_positions :: "string \<Rightarrow> string list" where
  "link_positions p =
     (if p = [] \<or> hd p = CHR ''}'' then []
      else p # (case strchr p CHR '','' of None \<Rightarrow> [] | Some (e, rest) \<Rightarrow> link_positions rest))"
  by pat_completeness auto
termination
  by (relation "measure length") (auto dest: strchr_length)

declare link_positions.simps [simp del]

definition link_array_positions :: "string option \<Rightarrow> string list" where
  "link_array_positions text =
     (case text of None \<Rightarrow> [] | Some t \<Rightarrow> link_positions (skip_brace t))"

text \<open>
  \<^verbatim>\<open>getValue\<close>, \<^verbatim>\<open>doUnpackValue\<close> and the loop over the elements of a link value. The first
  argument after the type codes bounds the depth of the recursion. A \<^verbatim>\<open>Response\<close> that
  met no row has an uninitialised \<^verbatim>\<open>vtype\<close>.
\<close>

fun getValue :: "atom_types \<Rightarrow> nat \<Rightarrow> (nat \<rightharpoonup> value_row) \<Rightarrow> nat \<Rightarrow> error + Value"
  and doUnpackValue :: "atom_types \<Rightarrow> nat \<Rightarrow> (nat \<rightharpoonup> value_row) \<Rightarrow> value_row \<Rightarrow> error + Value"
  and getValues :: "atom_types \<Rightarrow> nat \<Rightarrow> (nat \<rightharpoonup> value_row) \<Rightarrow> string list \<Rightarrow> error + Value list"
  where
  "getValue ty 0 tbl vuid = Inl OutOfFuel"
| "getValue ty (Suc fuel) tbl vuid =
     (case tbl vuid of
        None \<Rightarrow> Inl Undefined
      | Some rp \<Rightarrow> doUnpackValue ty fuel tbl rp)"
| "doUnpackValue ty fuel tbl rp =
     (if vtype rp = STRING_VALUE ty then
        (case unpack_string_array (strval rp) of
           None \<Rightarrow> Inl Undefined
         | Some strarr \<Rightarrow> Inr (StringValue strarr))
      else if vtype rp = FLOAT_VALUE ty then
        (case unpack_float_array (fltval rp) of
           None \<Rightarrow> Inl Undefined
         | Some fltarr \<Rightarrow> Inr (FloatValue fltarr))
      else if vtype rp = LINK_VALUE ty then
        (case getValues ty fuel tbl (link_array_positions (lnkval rp)) of
           Inl e \<Rightarrow> Inl e
         | Inr lnkarr \<Rightarrow> Inr (LinkValue lnkarr))
      else Inl (IOException ''Unexpected value type!''))"
| "getValues ty fuel tbl [] = Inr []"
| "getValues ty fuel tbl (p # ps) =
     (case atoi p of
        None \<Rightarrow> Inl Undefined
      | Some i \<Rightarrow>
          (case getValue ty fuel tbl (vuid_of_int i) of
             Inl e \<Rightarrow> Inl e
           | Inr pap \<Rightarrow>
               (case getValues ty fuel tbl ps of
                  Inl e \<Rightarrow> Inl e
                | Inr paps \<Rightarrow> Inr (pap # paps))))"

text \<open>\<^verbatim>\<open>deleteValue\<close>: the elements of a link value first, then the row itself.\<close>

fun deleteValue :: "atom_types \<Rightarrow> nat \<Rightarrow> storage \<Rightarrow> nat \<Rightarrow> error + storage"
  and deleteValues :: "atom_types \<Rightarrow> nat \<Rightarrow> storage \<Rightarrow> string list \<Rightarrow> error + storage"
  where
  "deleteValue ty 0 s vuid = Inl OutOfFuel"
| "deleteValue ty (Suc fuel) s vuid =
     (case Values s vuid of
        None \<Rightarrow> Inl Undefined
      | Some rp \<Rightarrow>
          (case (if vtype rp = LINK_VALUE ty
                 then deleteValues ty fuel s (link_array_positions (lnkval rp))
                 else Inr s) of
             Inl e \<Rightarrow> Inl e
           | Inr s1 \<Rightarrow> Inr (snd (exec (DELETE_Values vuid) s1))))"
| "deleteValues ty fuel s [] = Inr s"
| "deleteValues ty fuel s (p # ps) =
     (case atoi p of
        None \<Rightarrow> Inl Undefined
      | Some i \<Rightarrow>
          (case deleteValue ty fuel s (vuid_of_int i) of
             Inl e \<Rightarrow> Inl e
           | Inr s1 \<Rightarrow> deleteValues ty fuel s1 ps))"

text \<open>
  The rows that \<^verbatim>\<open>SELECT * FROM Valuations WHERE key = .. AND atom = ..\<close> returns; the
  callback keeps what the last row holds.
\<close>

definition select_Valuations :: "storage \<Rightarrow> nat \<Rightarrow> nat \<Rightarrow> value_row list" where
  "select_Valuations s k a =
     map (\<lambda>(k', a', r). r) (filter (\<lambda>(k', a', r). k' = k \<and> a' = a) (Valuations s))"

definition deleteValuation :: "atom_types \<Rightarrow> nat \<Rightarrow> Atom \<Rightarrow> Atom \<Rightarrow> storage \<Rightarrow> error + storage" where
  "deleteValuation ty fuel key atom s =
     (let rows = select_Valuations s (getUUID s key) (getUUID s atom);
          rp_vtype = (if rows = [] then 0 else vtype (last rows))
      in case (if LINK_VALUE ty = rp_vtype
               then (if rows = [] then Inl Undefined
                     else deleteValues ty fuel s (link_array_positions (lnkval (last rows))))
               else Inr s) of
           Inl e \<Rightarrow> Inl e
         | Inr s1 \<Rightarrow>
             if 0 \<noteq> rp_vtype
             then Inr (snd (exec (DELETE_Valuations (getUUID s key) (getUUID s atom)) s1))
             else Inr s1)"

text \<open>\<^verbatim>\<open>storeValuation\<close> (the value column is chosen by the class of the value).\<close>

fun value_column ::
  "atom_types \<Rightarrow> Value \<Rightarrow> (string \<times> string) list \<Rightarrow> storage \<Rightarrow> (string \<times> string) list \<times> storage" where
  "value_column ty (FloatValue fs) cols s = (STMT ''floatvalue'' (float_to_string fs) cols, s)"
| "value_column ty (StringValue ss) cols s = (STMT ''stringvalue'' (string_to_string ss) cols, s)"
| "value_column ty (LinkValue vs) cols s =
     (case link_to_string ty vs s of (lstr, s') \<Rightarrow> (STMT ''linkvalue'' lstr cols, s'))"

definition storeValuation ::
  "atom_types \<Rightarrow> nat \<Rightarrow> Atom \<Rightarrow> Atom \<Rightarrow> Value \<Rightarrow> storage \<Rightarrow> error + storage" where
  "storeValuation ty fuel key atom pap s =
     (let kidbuff = to_string_ulong (getUUID s key);
          aidbuff = to_string_ulong (getUUID s atom);
          s1 = snd (exec BEGIN s)
      in case deleteValuation ty fuel key atom s1 of
           Inl e \<Rightarrow> Inl e
         | Inr s2 \<Rightarrow>
             (let cols = STMTI ''type'' (getType_Value ty pap)
                           (STMT ''atom'' aidbuff (STMT ''key'' kidbuff []))
              in case value_column ty pap cols s2 of
                   (cols', s3) \<Rightarrow>
                     Inr (snd (exec COMMIT (snd (exec (INSERT_Valuations cols') s3))))))"

definition getValuation :: "atom_types \<Rightarrow> nat \<Rightarrow> Atom \<Rightarrow> Atom \<Rightarrow> storage \<Rightarrow> error + Value" where
  "getValuation ty fuel key atom s =
     (let rows = select_Valuations s (getUUID s key) (getUUID s atom)
      in if rows = [] then Inl Undefined
         else doUnpackValue ty fuel (Values s) (last rows))"


subsection \<open>Storing atoms\<close>

fun isNode :: "Atom \<Rightarrow> bool" where
  "isNode (Node t n) = True"
| "isNode (Link t out) = False"

fun isLink :: "Atom \<Rightarrow> bool" where
  "isLink (Node t n) = False"
| "isLink (Link t out) = True"

fun getType_Atom :: "Atom \<Rightarrow> nat" where
  "getType_Atom (Node t n) = t"
| "getType_Atom (Link t out) = t"

fun getName :: "Atom \<Rightarrow> string" where
  "getName (Node t n) = n"
| "getName (Link t out) = []"

fun getOutgoingSet :: "Atom \<Rightarrow> Atom list" where
  "getOutgoingSet (Node t n) = []"
| "getOutgoingSet (Link t out) = out"

definition getArity :: "Atom \<Rightarrow> nat" where
  "getArity h = length (getOutgoingSet h)"

text \<open>\<^verbatim>\<open>get_height\<close>, with its loop over the outgoing set.\<close>

fun get_height :: "Atom \<Rightarrow> nat"
  and get_height_loop :: "nat \<Rightarrow> Atom list \<Rightarrow> nat" where
  "get_height (Node t n) = 0"
| "get_height (Link t out) = get_height_loop 0 out + 1"
| "get_height_loop maxd [] = maxd"
| "get_height_loop maxd (h # hs) =
     (let d = get_height h in get_height_loop (if maxd < d then d else maxd) hs)"

text \<open>
  The height as the specification defines it: 0 for a node, and for a link one more than
  the greatest height of its children (0 when it has none).
\<close>

fun height :: "Atom \<Rightarrow> nat" where
  "height (Node t n) = 0"
| "height (Link t out) = 1 + Max (insert 0 (set (map height out)))"

text \<open>
  What the source needs from its surroundings: the class server, the type codes and the
  atom space.
\<close>

record runtime =
  classserver :: ClassServer
  types :: atom_types
  atoms :: atomspace

definition STMTF ::
  "string \<Rightarrow> double \<Rightarrow> (string \<times> string) list \<Rightarrow> (string \<times> string) list" where
  "STMTF colname fval cols = STMT colname (snprintf_12_8g fval) cols"

text \<open>
  Modelled from the spec: \<^verbatim>\<open>TLB::addAtom\<close> with an invalid hint returns the identifier the
  handle is bound to, or binds a fresh one.
\<close>

definition addAtom :: "Atom \<Rightarrow> storage \<Rightarrow> nat \<times> storage" where
  "addAtom h s =
     (case tlb_uuid s h of
        Some u \<Rightarrow> (u, s)
      | None \<Rightarrow> (tlb_brk s, s\<lparr>tlb_uuid := (tlb_uuid s)(h \<mapsto> tlb_brk s), tlb_brk := tlb_brk s + 1\<rparr>))"

text \<open>
  \<^verbatim>\<open>maybe_create_id\<close> for a single thread. The result tells whether the returned lock is
  held. When the identifier is in \<open>id_create_cache\<close> alone, the source locks
  \<open>id_create_mutex\<close> a second time while \<open>create_lock\<close> holds it.
\<close>

definition maybe_create_id :: "nat \<Rightarrow> storage \<Rightarrow> error + bool \<times> storage" where
  "maybe_create_id uuid s =
     (if uuid \<in> local_id_cache s then Inr (False, s)
      else if uuid \<in> id_create_cache s then Inl Deadlock
      else Inr (True, s\<lparr>id_create_cache := insert uuid (id_create_cache s)\<rparr>))"

definition add_id_to_cache :: "nat \<Rightarrow> storage \<Rightarrow> storage" where
  "add_id_to_cache uuid s =
     s\<lparr>local_id_cache := insert uuid (local_id_cache s),
       id_create_cache := id_create_cache s - {uuid}\<rparr>"

fun store_atomtable_id :: "AtomTable \<Rightarrow> storage \<Rightarrow> storage" where
  "store_atomtable_id (AtomTable tab_id env) s =
     (if tab_id \<in> table_id_cache s then s
      else
        (let s1 = s\<lparr>table_id_cache := insert tab_id (table_id_cache s)\<rparr>
         in case env of
              None \<Rightarrow> snd (exec (INSERT_Spaces tab_id 1) s1)
            | Some e \<Rightarrow>
                snd (exec (INSERT_Spaces tab_id (get_uuid_table e)) (store_atomtable_id e s1))))"

text \<open>
  \<^verbatim>\<open>oset_to_string\<close>. \<^verbatim>\<open>get_uuid\<close> asks the database for a handle that the TLB does not
  know; this path is left out (\<open>None\<close>).
\<close>

fun oset_elems :: "storage \<Rightarrow> bool \<Rightarrow> Atom list \<Rightarrow> string option" where
  "oset_elems s not_first [] = Some []"
| "oset_elems s not_first (h # hs) =
     (case tlb_uuid s h of
        None \<Rightarrow> None
      | Some u \<Rightarrow>
          map_option (\<lambda>str. (if not_first then '', '' else []) @ to_string_ulong u @ str)
            (oset_elems s True hs))"

definition oset_to_string :: "storage \<Rightarrow> Atom list \<Rightarrow> string option" where
  "oset_to_string s out =
     map_option (\<lambda>str. [squote] @ ''{'' @ str @ ''}'' @ [squote]) (oset_elems s False out)"

text \<open>
  The columns of the truth value. The cases follow the class of the truth value; a null
  pointer and any other class end in the exception.
\<close>

definition tv_type_code :: "atom_types \<Rightarrow> TruthValue option \<Rightarrow> nat" where
  "tv_type_code ty tv =
     (case tv of
        None \<Rightarrow> 0
      | Some (SimpleTV m c n) \<Rightarrow> SIMPLE_TRUTH_VALUE ty
      | Some (CountTV m c n) \<Rightarrow> COUNT_TRUTH_VALUE ty
      | Some (ProbabilisticTV m c n) \<Rightarrow> PROBABILISTIC_TRUTH_VALUE ty
      | Some (IndefiniteTV l u c) \<Rightarrow> INDEFINITE_TRUTH_VALUE ty
      | Some (OtherTV t) \<Rightarrow> t)"

definition tv_columns ::
  "runtime \<Rightarrow> TruthValue option \<Rightarrow> (string \<times> string) list \<Rightarrow> error + (string \<times> string) list" where
  "tv_columns rt tv cols =
     (let cols1 = STMTI ''tv_type'' (tv_type_code (types rt) tv) cols;
          mcn = (\<lambda>m c n. Inr (STMTF ''stv_count'' n
                   (STMTF ''stv_confidence'' c (STMTF ''stv_mean'' m cols1))))
      in case tv of
           Some (SimpleTV m c n) \<Rightarrow> mcn m c n
         | Some (CountTV m c n) \<Rightarrow> mcn m c n
         | Some (ProbabilisticTV m c n) \<Rightarrow> mcn m c n
         | Some (IndefiniteTV l u c) \<Rightarrow>
             Inr (STMTF ''stv_confidence'' c
                   (STMTF ''stv_count'' u (STMTF ''stv_mean'' l cols1)))
         | _ \<Rightarrow> Inl (IOException ''Error: store_single: Unknown truth value type''))"

text \<open>
  The columns that are written only when the atom is stored for the first time: space,
  type, and name or height and outgoing set; with the two size limits.
\<close>

definition first_time_columns ::
  "runtime \<Rightarrow> Atom \<Rightarrow> nat \<Rightarrow> (string \<times> string) list \<Rightarrow> storage
     \<Rightarrow> (error + (string \<times> string) list) \<times> storage" where
  "first_time_columns rt h aheight cols s =
     (let uuidbuff = (case getAtomTable (atoms rt) h of None \<Rightarrow> ''0'' | Some tab \<Rightarrow> ''1'');
          cols1 = STMT ''space'' uuidbuff cols;
          t = getType_Atom h
      in if \<not> t < TYPEMAP_SZ then (Inl Undefined, s)
         else
           (let dbtype = storing_typemap (typemap s) t;
                cols2 = STMTI ''type'' (nat (dbtype mod 2 ^ 32)) cols1
            in if isNode h then
                 (let qname = '' $ocp$'' @ getName h @ ''$ocp$ ''
                  in if 2700 < length qname
                     then (Inl (IOException
                       ''Error: do_store_single_atom: Maxiumum Node name size is 2700.''), s)
                     else (Inr (STMTI ''height'' 0 (STMT ''name'' qname cols2)), s))
               else
                 (let s1 = (if max_height s < aheight then s\<lparr>max_height := aheight\<rparr> else s);
                      cols3 = STMTI ''height'' aheight cols2
                  in if isLink h then
                       (if 330 < getArity h
                        then (Inl (IOException
                          ''Error: do_store_single_atom: Maxiumum Link size is 330.''), s1)
                        else
                          (case oset_to_string s1 (getOutgoingSet h) of
                             None \<Rightarrow> (Inl NotModelled, s1)
                           | Some ostr \<Rightarrow> (Inr (STMT ''outgoing'' ostr cols3), s1)))
                     else (Inr cols3, s1))))"

definition count_store :: "nat \<Rightarrow> bool \<Rightarrow> storage \<Rightarrow> storage" where
  "count_store aheight update s =
     (if aheight = 0 then
        (if update then s\<lparr>num_node_updates := num_node_updates s + 1\<rparr>
         else s\<lparr>num_node_inserts := num_node_inserts s + 1\<rparr>)
      else
        (if update then s\<lparr>num_link_updates := num_link_updates s + 1\<rparr>
         else s\<lparr>num_link_inserts := num_link_inserts s + 1\<rparr>))"

text \<open>
  The end of \<^verbatim>\<open>do_store_single_atom\<close>: the statement is executed; without a record set
  the atom table is stored, if the atom has one, and the statement is executed again;
  then the identifier is noted as stored.
\<close>

definition execute_store :: "runtime \<Rightarrow> Atom \<Rightarrow> nat \<Rightarrow> sql \<Rightarrow> storage \<Rightarrow> storage" where
  "execute_store rt h uuid qry s =
     (case exec qry s of
        (ok, s1) \<Rightarrow>
          (let try_again = \<not> ok;
               s2 = (if try_again then
                       snd (exec qry
                         (case getAtomTable (atoms rt) h of
                            None \<Rightarrow> s1
                          | Some tab \<Rightarrow> store_atomtable_id tab s1))
                     else s1);
               s3 = add_id_to_cache uuid s2
           in s3\<lparr>store_count := store_count s3 + 1\<rparr>))"

text \<open>
  \<^verbatim>\<open>do_store_single_atom\<close>. The result is the exception, if one is thrown, and the state
  that is left behind.
\<close>

definition do_store_single_atom :: "runtime \<Rightarrow> Atom \<Rightarrow> nat \<Rightarrow> storage \<Rightarrow> error option \<times> storage" where
  "do_store_single_atom rt h aheight s =
     (case setup_typemap (classserver rt) (typemap s) of
        None \<Rightarrow> (Some Undefined, s)
      | Some tm \<Rightarrow>
          (case addAtom h (s\<lparr>typemap := tm\<rparr>) of
             (uuid, s1) \<Rightarrow>
               (let uuidbuff = to_string_ulong uuid
                in case maybe_create_id uuid s1 of
                     Inl e \<Rightarrow> (Some e, s1)
                   | Inr (owns_lock, s2) \<Rightarrow>
                       (let update = \<not> owns_lock;
                            cols = (if update then [] else STMT ''uuid'' uuidbuff []);
                            s3 = count_store aheight update s2
                        in case (if update then (Inr cols, s3)
                                 else first_time_columns rt h aheight cols s3) of
                             (Inl e, s4) \<Rightarrow> (Some e, s4)
                           | (Inr cols1, s4) \<Rightarrow>
                               (case tv_columns rt (getTruthValue (atoms rt) h) cols1 of
                                  Inl e \<Rightarrow> (Some e, s4)
                                | Inr cols2 \<Rightarrow>
                                    (None, execute_store rt h uuid
                                       (if update then UPDATE_Atoms cols2 uuid
                                        else INSERT_Atoms cols2) s4))))))"

text \<open>\<^verbatim>\<open>store_atom_values\<close>: every value of the atom, under its key.\<close>

fun store_key_values ::
  "runtime \<Rightarrow> nat \<Rightarrow> Atom \<Rightarrow> (Atom \<times> Value) list \<Rightarrow> storage \<Rightarrow> error option \<times> storage" where
  "store_key_values rt fuel atom [] s = (None, s)"
| "store_key_values rt fuel atom ((key, pap) # kvs) s =
     (case storeValuation (types rt) fuel key atom pap s of
        Inl e \<Rightarrow> (Some e, s)
      | Inr s1 \<Rightarrow> store_key_values rt fuel atom kvs s1)"

definition store_atom_values :: "runtime \<Rightarrow> nat \<Rightarrow> Atom \<Rightarrow> storage \<Rightarrow> error option \<times> storage" where
  "store_atom_values rt fuel atom s = store_key_values rt fuel atom (getKeyValues (atoms rt) atom) s"

text \<open>
  \<^verbatim>\<open>do_store_atom\<close>, with its loop over the outgoing set of a link. It returns the height
  of the atom.
\<close>

fun do_store_atom :: "runtime \<Rightarrow> nat \<Rightarrow> Atom \<Rightarrow> storage \<Rightarrow> (error + nat) \<times> storage"
  and do_store_outgoing ::
    "runtime \<Rightarrow> nat \<Rightarrow> nat \<Rightarrow> Atom list \<Rightarrow> storage \<Rightarrow> (error + nat) \<times> storage" where
  "do_store_atom rt fuel (Node t n) s =
     (case do_store_single_atom rt (Node t n) 0 s of
        (Some e, s1) \<Rightarrow> (Inl e, s1)
      | (None, s1) \<Rightarrow>
          (case store_atom_values rt fuel (Node t n) s1 of
             (Some e, s2) \<Rightarrow> (Inl e, s2)
           | (None, s2) \<Rightarrow> (Inr 0, s2)))"
| "do_store_atom rt fuel (Link t out) s =
     (case do_store_outgoing rt fuel 0 out s of
        (Inl e, s1) \<Rightarrow> (Inl e, s1)
      | (Inr lheight, s1) \<Rightarrow>
          (case do_store_single_atom rt (Link t out) (lheight + 1) s1 of
             (Some e, s2) \<Rightarrow> (Inl e, s2)
           | (None, s2) \<Rightarrow>
               (case store_atom_values rt fuel (Link t out) s2 of
                  (Some e, s3) \<Rightarrow> (Inl e, s3)
                | (None, s3) \<Rightarrow> (Inr (lheight + 1), s3))))"
| "do_store_outgoing rt fuel lheight [] s = (Inr lheight, s)"
| "do_store_outgoing rt fuel lheight (ho # hos) s =
     (case do_store_atom rt fuel ho s of
        (Inl e, s1) \<Rightarrow> (Inl e, s1)
      | (Inr heig, s1) \<Rightarrow>
          do_store_outgoing rt fuel (if lheight < heig then heig else lheight) hos s1)"









text \<open>The spaces that a list of statements inserts into \<^verbatim>\<open>Spaces\<close>.\<close>

fun space_ids :: "sql list \<Rightarrow> nat list" where
  "space_ids [] = []"
| "space_ids (INSERT_Spaces sp parent # sts) = sp # space_ids sts"
| "space_ids (st # sts) = space_ids sts"

text \<open>
  What the server makes of a list of statements, one after the other; two states that
  differ at most in the tables of the values, the log and the counter of the values; and
  two states whose databases are the same.
\<close>

definition server_run :: "sql list \<Rightarrow> storage \<Rightarrow> storage" where
  "server_run sts s = foldl (\<lambda>s' st. snd (exec st s')) s sts"

definition atoms_kept :: "storage \<Rightarrow> storage \<Rightarrow> bool" where
  "atoms_kept s s' =
     (Spaces s' = Spaces s \<and> Atoms s' = Atoms s \<and> Atoms_columns s' = Atoms_columns s
      \<and> tlb_uuid s' = tlb_uuid s \<and> tlb_brk s' = tlb_brk s
      \<and> local_id_cache s' = local_id_cache s \<and> id_create_cache s' = id_create_cache s
      \<and> table_id_cache s' = table_id_cache s \<and> typemap s' = typemap s
      \<and> max_height s' = max_height s \<and> store_count s' = store_count s
      \<and> num_node_updates s' = num_node_updates s \<and> num_node_inserts s' = num_node_inserts s
      \<and> num_link_updates s' = num_link_updates s \<and> num_link_inserts s' = num_link_inserts s)"

definition same_db :: "storage \<Rightarrow> storage \<Rightarrow> bool" where
  "same_db s t =
     (Spaces s = Spaces t \<and> Atoms s = Atoms t \<and> Atoms_columns s = Atoms_columns t
      \<and> Valuations s = Valuations t \<and> Values s = Values t)"



subsection \<open>A small runtime and an empty database\<close>

text \<open>
  The concrete inputs of the examples: a class server with eleven types, the type codes
  it gives, an atom space in which every atom has the same simple truth value, no values
  and no atom table, and the store right after \<^verbatim>\<open>init\<close> on empty tables.
\<close>

definition example_runtime :: runtime where
  "example_runtime =
     \<lparr>classserver =
        \<lparr>type_names = [''Notype'', ''ProtoAtom'', ''FloatValue'', ''StringValue'', ''LinkValue'',
           ''SimpleTruthValue'', ''CountTruthValue'', ''IndefiniteTruthValue'',
           ''ProbabilisticTruthValue'', ''ConceptNode'', ''ListLink''],
         NOTYPE = 0\<rparr>,
      types =
        \<lparr>FLOAT_VALUE = 2, STRING_VALUE = 3, LINK_VALUE = 4, SIMPLE_TRUTH_VALUE = 5,
         COUNT_TRUTH_VALUE = 6, INDEFINITE_TRUTH_VALUE = 7, PROBABILISTIC_TRUTH_VALUE = 8\<rparr>,
      atoms =
        \<lparr>getTruthValue = (\<lambda>h. Some (SimpleTV (Finite (1 / 2)) (Finite (9 / 10)) (Finite 0))),
         getKeyValues = (\<lambda>h. []),
         getAtomTable = (\<lambda>h. None)\<rparr>\<rparr>"

text \<open>
  The columns of \<^verbatim>\<open>Atoms\<close>. The source refers to the file \<^verbatim>\<open>atom.sql\<close> for the tables, and
  all its statements and callbacks name the type of the truth value \<^verbatim>\<open>tv_type\<close>;
  \<^verbatim>\<open>create_tables\<close> makes the table with a column \<^verbatim>\<open>type_tv\<close> instead.
\<close>

definition atom_sql_Atoms_columns :: "string list" where
  "atom_sql_Atoms_columns =
     [''uuid'', ''space'', ''type'', ''tv_type'', ''stv_mean'', ''stv_confidence'',
      ''stv_count'', ''height'', ''name'', ''outgoing'']"


definition new_storage :: storage where
  "new_storage =
     \<lparr>Spaces = [(0, 0), (1, 1)], Atoms = [], Atoms_columns = atom_sql_Atoms_columns,
      Valuations = [], Values = Map.empty,
      sql_log = [], next_valid = 1, tlb_uuid = Map.empty, tlb_brk = 1,
      local_id_cache = {}, id_create_cache = {}, table_id_cache = {},
      typemap = \<lparr>loading_typemap = (\<lambda>i. 0), storing_typemap = (\<lambda>i. 0),
        db_typename = (\<lambda>i. None), TypeCodes = [], type_map_was_loaded = False\<rparr>,
      max_height = 0, store_count = 0, num_node_updates = 0, num_node_inserts = 0,
      num_link_updates = 0, num_link_inserts = 0\<rparr>"


section \<open>Properties\<close>

subsection \<open>Formatting of numbers\<close>




















subsection \<open>The type-code map\<close>

lemma index_of_nth:
  "distinct xs \<Longrightarrow> t < length xs \<Longrightarrow> index_of (xs ! t) xs = Some t"
proof (induction xs arbitrary: t)
  case Nil
  then show ?case by simp
next
  case (Cons x xs)
  show ?case
  proof (cases t)
    case 0
    then show ?thesis by simp
  next
    case (Suc u)
    with Cons.prems have "xs ! u \<noteq> x" "u < length xs" "distinct xs" by auto
    with Cons.IH [of u] Suc show ?thesis by simp
  qed
qed

lemma index_of_None: "x \<notin> set xs \<Longrightarrow> index_of x xs = None"
  by (induction xs) auto

lemma getType_known:
  "distinct (type_names cs) \<Longrightarrow> t < length (type_names cs) \<Longrightarrow> getType cs (type_names cs ! t) = t"
  by (simp add: getType_def index_of_nth)

lemma getType_unknown: "tname \<notin> set (type_names cs) \<Longrightarrow> getType cs tname = NOTYPE cs"
  by (simp add: getType_def index_of_None)

lemma first_unused_spec:
  "s \<le> first_unused names s
   \<and> (\<forall>i. s \<le> i \<and> i < first_unused names s \<longrightarrow> names i \<noteq> None)
   \<and> (first_unused names s < TYPEMAP_SZ \<longrightarrow> names (first_unused names s) = None)
   \<and> (s \<le> TYPEMAP_SZ \<longrightarrow> first_unused names s \<le> TYPEMAP_SZ)"
proof (induction names s rule: first_unused.induct)
  case (1 names sqid)
  show ?case
  proof (cases "sqid < TYPEMAP_SZ \<and> names sqid \<noteq> None")
    case True
    then have eq: "first_unused names sqid = first_unused names (sqid + 1)"
      by (subst first_unused.simps) simp
    from 1 [OF True] True show ?thesis
      unfolding eq
      by (metis Suc_eq_plus1 Suc_leD Suc_leI le_neq_implies_less)
  next
    case False
    then have eq: "first_unused names sqid = sqid"
      by (subst first_unused.simps) auto
    from False show ?thesis unfolding eq by auto
  qed
qed

lemma first_unused_free:
  assumes "card {i. i < TYPEMAP_SZ \<and> names i \<noteq> None} < TYPEMAP_SZ"
  shows "first_unused names 0 < TYPEMAP_SZ" and "names (first_unused names 0) = None"
proof -
  let ?r = "first_unused names 0"
  have spec: "\<forall>i. i < ?r \<longrightarrow> names i \<noteq> None" "?r < TYPEMAP_SZ \<longrightarrow> names ?r = None"
    "?r \<le> TYPEMAP_SZ"
    using first_unused_spec [of 0 names] by auto
  show lt: "?r < TYPEMAP_SZ"
  proof (rule ccontr)
    assume "\<not> ?r < TYPEMAP_SZ"
    with spec(3) have "?r = TYPEMAP_SZ" by simp
    with spec(1) have "{i. i < TYPEMAP_SZ \<and> names i \<noteq> None} = {..<TYPEMAP_SZ}" by auto
    with assms show False by simp
  qed
  with spec(2) show "names ?r = None" by simp
qed


lemma index_of_Some: "index_of x xs = Some t \<Longrightarrow> t < length xs \<and> xs ! t = x"
proof (induction xs arbitrary: t)
  case Nil
  then show ?case by simp
next
  case (Cons y ys)
  show ?case
  proof (cases "x = y")
    case True
    with Cons.prems show ?thesis by simp
  next
    case False
    with Cons.prems obtain u where u: "index_of x ys = Some u" "t = Suc u" by auto
    with Cons.IH [of u] show ?thesis by simp
  qed
qed

lemma getType_range:
  "getType cs tname = NOTYPE cs \<or> (getType cs tname < length (type_names cs)
     \<and> type_names cs ! getType cs tname = tname)"
  by (auto simp: getType_def dest: index_of_Some split: option.splits)

lemma typemap_type_skip:
  "storing_typemap S t \<noteq> -1 \<Longrightarrow> typemap_type cs t S = Some S"
  by (simp add: typemap_type_def)

lemma typemap_type_set:
  assumes "storing_typemap S t = -1" "distinct (type_names cs)" "t < length (type_names cs)"
    and "sqid = (if db_typename S t \<noteq> None \<and> loading_typemap S t \<noteq> t
                 then first_unused (db_typename S) 0 else t)"
    and "sqid < TYPEMAP_SZ" "t < TYPEMAP_SZ"
  shows "typemap_type cs t S =
     Some (S\<lparr>loading_typemap := (loading_typemap S)(sqid := t),
             storing_typemap := (storing_typemap S)(t := int sqid),
             db_typename := (db_typename S)(sqid \<mapsto> type_names cs ! t),
             TypeCodes := insert_TypeCodes sqid (type_names cs ! t) (TypeCodes S)\<rparr>)"
  using assms
  by (simp add: typemap_type_def set_typemap_def getTypeName_def getType_known Let_def)


lemma card_used_insert:
  "card {i. i < TYPEMAP_SZ \<and> (names(sqid \<mapsto> x)) i \<noteq> None}
     \<le> Suc (card {i. i < TYPEMAP_SZ \<and> names i \<noteq> None})"
proof -
  let ?U = "{i. i < TYPEMAP_SZ \<and> names i \<noteq> None}"
  have fin: "finite ?U" by simp
  have "{i. i < TYPEMAP_SZ \<and> (names(sqid \<mapsto> x)) i \<noteq> None} \<subseteq> insert sqid ?U"
    by auto
  then have "card {i. i < TYPEMAP_SZ \<and> (names(sqid \<mapsto> x)) i \<noteq> None} \<le> card (insert sqid ?U)"
    using fin by (intro card_mono) simp_all
  also have "\<dots> \<le> Suc (card ?U)"
    using fin by (simp add: card_insert_if)
  finally show ?thesis .
qed

lemma typemap_invI:
  assumes "db_typename S k = Some foo" and "loading_typemap S k = NOTYPE cs"
    and "\<forall>i. db_typename S i \<noteq> None \<longleftrightarrow>
          (i \<in> fst ` set tc0 \<or> (\<exists>t'<t. storing_typemap S t' = int i))"
    and "\<forall>u i. storing_typemap S u = int i \<longrightarrow> db_typename S i \<noteq> None"
    and "\<forall>i. db_typename S i \<noteq> None \<longrightarrow> i < TYPEMAP_SZ"
    and "card {i. i < TYPEMAP_SZ \<and> db_typename S i \<noteq> None} \<le> length tc0 + t"
    and "set tc0 \<subseteq> set (TypeCodes S)"
    and "fst ` set (TypeCodes S) \<subseteq> {i. db_typename S i \<noteq> None}"
    and "snd ` set (TypeCodes S) \<subseteq> snd ` set tc0 \<union> (\<lambda>t'. type_names cs ! t') ` {..<t}"
    and "t \<le> k \<longrightarrow> storing_typemap S k = -1"
    and "k < t \<longrightarrow>
        (\<exists>c. storing_typemap S k = int c \<and> c \<noteq> k
           \<and> (c, type_names cs ! k) \<in> set (TypeCodes S)
           \<and> lowest_unused tc0 (storing_typemap S) k c)"
  shows "typemap_inv cs tc0 k foo t S"
  unfolding typemap_inv_def using assms by (intro conjI)

lemma slot_used_cong:
  assumes "\<And>t'. t' < k \<Longrightarrow> f t' = g t'"
  shows "slot_used tc0 f k i = slot_used tc0 g k i"
  unfolding slot_used_def using assms by auto

lemma lowest_unused_cong:
  assumes "\<And>t'. t' < k \<Longrightarrow> f t' = g t'"
  shows "lowest_unused tc0 f k c = lowest_unused tc0 g k c"
  unfolding lowest_unused_def using slot_used_cong [of k f g, OF assms] by simp

lemma typemap_inv_step:
  assumes inv: "typemap_inv cs tc0 k foo t S"
    and d: "distinct (type_names cs)" and tn: "t < length (type_names cs)"
    and kn: "k < length (type_names cs)"
    and nk: "NOTYPE cs \<noteq> k"
    and bar: "type_names cs ! k \<notin> snd ` set tc0"
    and room: "length tc0 + length (type_names cs) < TYPEMAP_SZ"
  shows "\<exists>S'. typemap_type cs t S = Some S' \<and> typemap_inv cs tc0 k foo (Suc t) S'"
proof -
  note J = inv [unfolded typemap_inv_def]
  note i1 = J [THEN conjunct1] J [THEN conjunct2, THEN conjunct1]
  note J3 = J [THEN conjunct2, THEN conjunct2]
  note J5 = J3 [THEN conjunct2, THEN conjunct2]
  note J7 = J5 [THEN conjunct2, THEN conjunct2]
  note J9 = J7 [THEN conjunct2, THEN conjunct2]
  note I3 = J3 [THEN conjunct1] and I4 = J3 [THEN conjunct2, THEN conjunct1]
    and I5 = J5 [THEN conjunct1] and I6 = J5 [THEN conjunct2, THEN conjunct1]
    and I7 = J7 [THEN conjunct1] and I8 = J7 [THEN conjunct2, THEN conjunct1]
    and I9 = J9 [THEN conjunct1] and I10 = J9 [THEN conjunct2, THEN conjunct1]
    and I11 = J9 [THEN conjunct2, THEN conjunct2]
  have iA: "\<And>i. db_typename S i \<noteq> None \<longleftrightarrow>
      (i \<in> fst ` set tc0 \<or> (\<exists>t'<t. storing_typemap S t' = int i))"
    using I3 by (rule spec)
  have iB: "\<And>u i. storing_typemap S u = int i \<Longrightarrow> db_typename S i \<noteq> None"
    using I4 by (rule allE) (erule allE, erule mp)
  have iE: "\<And>i. db_typename S i \<noteq> None \<Longrightarrow> i < TYPEMAP_SZ"
    using I5 by (rule allE) (erule mp)
  note iC = I6 and iD1 = I7 and iD2 = I8 and iD3 = I9
  have iF: "t \<le> k \<Longrightarrow> storing_typemap S k = -1" using I10 by (rule mp)
  have iG: "k < t \<Longrightarrow> \<exists>c. storing_typemap S k = int c \<and> c \<noteq> k
           \<and> (c, type_names cs ! k) \<in> set (TypeCodes S)
           \<and> lowest_unused tc0 (storing_typemap S) k c" using I11 by (rule mp)
  show ?thesis
  proof (cases "storing_typemap S t = -1")
    case False
    then have step: "typemap_type cs t S = Some S" by (rule typemap_type_skip)
    have tk: "t \<noteq> k" using False iF iG by (cases "t \<le> k") auto
    have A: "\<forall>i. db_typename S i \<noteq> None \<longleftrightarrow>
      (i \<in> fst ` set tc0 \<or> (\<exists>t'<Suc t. storing_typemap S t' = int i))"
    proof (intro allI iffI)
      fix i assume "db_typename S i \<noteq> None"
      with iA [of i] show "i \<in> fst ` set tc0 \<or> (\<exists>t'<Suc t. storing_typemap S t' = int i)"
        using less_Suc_eq by blast
    next
      fix i assume "i \<in> fst ` set tc0 \<or> (\<exists>t'<Suc t. storing_typemap S t' = int i)"
      then show "db_typename S i \<noteq> None"
        using iA [of i] iB [of _ i] by blast
    qed
    have C: "card {i. i < TYPEMAP_SZ \<and> db_typename S i \<noteq> None} \<le> length tc0 + Suc t"
      using iC by simp
    have D3: "snd ` set (TypeCodes S) \<subseteq> snd ` set tc0 \<union> (\<lambda>t'. type_names cs ! t') ` {..<Suc t}"
      using iD3 by auto
    have F: "Suc t \<le> k \<longrightarrow> storing_typemap S k = -1" using iF by simp
    have G: "k < Suc t \<longrightarrow> (\<exists>c. storing_typemap S k = int c \<and> c \<noteq> k
           \<and> (c, type_names cs ! k) \<in> set (TypeCodes S)
           \<and> lowest_unused tc0 (storing_typemap S) k c)"
      using iG tk by (simp add: less_Suc_eq)
    have "typemap_inv cs tc0 k foo (Suc t) S"
      using i1 A I4 I5 C iD1 iD2 D3 F G by (rule typemap_invI)
    with step show ?thesis by blast
  next
    case True
    define sqid where "sqid = (if db_typename S t \<noteq> None \<and> loading_typemap S t \<noteq> t
                 then first_unused (db_typename S) 0 else t)"
    have cardlt: "card {i. i < TYPEMAP_SZ \<and> db_typename S i \<noteq> None} < TYPEMAP_SZ"
      using iC room tn by simp
    have tsz: "t < TYPEMAP_SZ" using room tn by simp
    have sq_lt: "sqid < TYPEMAP_SZ"
      using first_unused_free(1) [OF cardlt] tsz by (simp add: sqid_def)
    have sq_k: "sqid \<noteq> k"
    proof (cases "db_typename S t \<noteq> None \<and> loading_typemap S t \<noteq> t")
      case True
      then have "db_typename S sqid = None"
        using first_unused_free(2) [OF cardlt] by (simp add: sqid_def)
      with i1 show ?thesis by auto
    next
      case False
      then have "sqid = t" by (auto simp: sqid_def)
      moreover have "t \<noteq> k" using False i1 nk by auto
      ultimately show ?thesis by simp
    qed
    let ?db = "(db_typename S)(sqid \<mapsto> type_names cs ! t)"
    let ?st = "(storing_typemap S)(t := int sqid)"
    let ?tc = "insert_TypeCodes sqid (type_names cs ! t) (TypeCodes S)"
    let ?S = "S\<lparr>loading_typemap := (loading_typemap S)(sqid := t),
             storing_typemap := ?st, db_typename := ?db, TypeCodes := ?tc\<rparr>"
    have step: "typemap_type cs t S = Some ?S"
      using True d tn sqid_def sq_lt tsz by (rule typemap_type_set)
    have n1: "db_typename ?S k = Some foo" "loading_typemap ?S k = NOTYPE cs"
      using i1 sq_k by simp_all
    have A: "\<forall>i. db_typename ?S i \<noteq> None \<longleftrightarrow>
      (i \<in> fst ` set tc0 \<or> (\<exists>t'<Suc t. storing_typemap ?S t' = int i))"
    proof
      fix i
      show "db_typename ?S i \<noteq> None \<longleftrightarrow>
        (i \<in> fst ` set tc0 \<or> (\<exists>t'<Suc t. storing_typemap ?S t' = int i))"
      proof
        assume a: "db_typename ?S i \<noteq> None"
        show "i \<in> fst ` set tc0 \<or> (\<exists>t'<Suc t. storing_typemap ?S t' = int i)"
        proof (cases "i = sqid")
          case True
          then have "t < Suc t \<and> storing_typemap ?S t = int i" by simp
          then show ?thesis by blast
        next
          case False
          with a have "db_typename S i \<noteq> None" by simp
          with iA [of i] have "i \<in> fst ` set tc0 \<or> (\<exists>t'<t. storing_typemap S t' = int i)"
            by blast
          then show ?thesis
          proof
            assume "i \<in> fst ` set tc0" then show ?thesis by blast
          next
            assume "\<exists>t'<t. storing_typemap S t' = int i"
            then obtain t' where "t' < t" "storing_typemap S t' = int i" by blast
            then have "t' < Suc t \<and> storing_typemap ?S t' = int i" by simp
            then show ?thesis by blast
          qed
        qed
      next
        assume "i \<in> fst ` set tc0 \<or> (\<exists>t'<Suc t. storing_typemap ?S t' = int i)"
        then show "db_typename ?S i \<noteq> None"
        proof
          assume "i \<in> fst ` set tc0"
          with iA [of i] have "db_typename S i \<noteq> None" by blast
          then show ?thesis by simp
        next
          assume "\<exists>t'<Suc t. storing_typemap ?S t' = int i"
          then obtain t' where t': "t' < Suc t" "storing_typemap ?S t' = int i" by blast
          show ?thesis
          proof (cases "t' = t")
            case True
            with t' have "i = sqid" by simp
            then show ?thesis by simp
          next
            case False
            with t' have "storing_typemap S t' = int i" by simp
            then have "db_typename S i \<noteq> None" by (rule iB)
            then show ?thesis by simp
          qed
        qed
      qed
    qed
    have B: "\<forall>u i. storing_typemap ?S u = int i \<longrightarrow> db_typename ?S i \<noteq> None"
    proof (intro allI impI)
      fix u i assume a: "storing_typemap ?S u = int i"
      show "db_typename ?S i \<noteq> None"
      proof (cases "u = t")
        case True
        with a have "i = sqid" by simp
        then show ?thesis by simp
      next
        case False
        with a have "storing_typemap S u = int i" by simp
        then have "db_typename S i \<noteq> None" by (rule iB)
        then show ?thesis by simp
      qed
    qed
    have E: "\<forall>i. db_typename ?S i \<noteq> None \<longrightarrow> i < TYPEMAP_SZ"
      using iE sq_lt by (simp split: if_splits)
    have C: "card {i. i < TYPEMAP_SZ \<and> db_typename ?S i \<noteq> None} \<le> length tc0 + Suc t"
    proof -
      have "card {i. i < TYPEMAP_SZ \<and> ?db i \<noteq> None}
          \<le> Suc (card {i. i < TYPEMAP_SZ \<and> db_typename S i \<noteq> None})"
        by (rule card_used_insert)
      with iC show ?thesis by simp
    qed
    have D1: "set tc0 \<subseteq> set (TypeCodes ?S)"
      using iD1 by (auto simp: insert_TypeCodes_def)
    have D2: "fst ` set (TypeCodes ?S) \<subseteq> {i. db_typename ?S i \<noteq> None}"
      using iD2 by (auto simp: insert_TypeCodes_def)
    have D3: "snd ` set (TypeCodes ?S) \<subseteq> snd ` set tc0 \<union> (\<lambda>t'. type_names cs ! t') ` {..<Suc t}"
      using iD3 by (auto simp: insert_TypeCodes_def)
    have F: "Suc t \<le> k \<longrightarrow> storing_typemap ?S k = -1"
      using iF by auto
    have G: "k < Suc t \<longrightarrow> (\<exists>c. storing_typemap ?S k = int c \<and> c \<noteq> k
           \<and> (c, type_names cs ! k) \<in> set (TypeCodes ?S)
           \<and> lowest_unused tc0 (storing_typemap ?S) k c)"
    proof
      assume "k < Suc t"
      then consider (eq) "t = k" | (gt) "k < t" by linarith
      then show "\<exists>c. storing_typemap ?S k = int c \<and> c \<noteq> k
           \<and> (c, type_names cs ! k) \<in> set (TypeCodes ?S)
           \<and> lowest_unused tc0 (storing_typemap ?S) k c"
      proof cases
        case eq
        have cond: "db_typename S t \<noteq> None \<and> loading_typemap S t \<noteq> t"
          using eq i1 nk by auto
        then have sq: "sqid = first_unused (db_typename S) 0" by (simp add: sqid_def)
        have free: "db_typename S sqid = None"
          using first_unused_free(2) [OF cardlt] sq by simp
        have below: "\<And>i. i < sqid \<Longrightarrow> db_typename S i \<noteq> None"
          using first_unused_spec [of 0 "db_typename S"] sq by auto
        have "sqid \<notin> fst ` set (TypeCodes S)" using iD2 free by auto
        moreover have "type_names cs ! k \<notin> snd ` set (TypeCodes S)"
        proof
          assume "type_names cs ! k \<in> snd ` set (TypeCodes S)"
          with iD3 bar have "type_names cs ! k \<in> (\<lambda>t'. type_names cs ! t') ` {..<t}" by blast
          then obtain t' where "t' < t" "type_names cs ! k = type_names cs ! t'" by auto
          with d kn eq show False by (auto simp: nth_eq_iff_index_eq)
        qed
        ultimately have row: "(sqid, type_names cs ! k) \<in> set (TypeCodes ?S)"
          using eq by (simp add: insert_TypeCodes_def)
        have "lowest_unused tc0 ?st k sqid"
          unfolding lowest_unused_def slot_used_def
        proof (intro conjI allI impI)
          show "\<not> (sqid \<in> fst ` set tc0 \<or> (\<exists>t'<k. ?st t' = int sqid))"
            using iA [of sqid] free eq by auto
        next
          fix i assume "i < sqid"
          then have "db_typename S i \<noteq> None" by (rule below)
          with iA [of i] have "i \<in> fst ` set tc0 \<or> (\<exists>t'<t. storing_typemap S t' = int i)" by blast
          then show "i \<in> fst ` set tc0 \<or> (\<exists>t'<k. ?st t' = int i)"
            using eq by auto
        qed
        then have low: "lowest_unused tc0 (storing_typemap ?S) k sqid" by simp
        have "storing_typemap ?S k = int sqid" using eq by simp
        with sq_k row low show ?thesis by blast
      next
        case gt
        from iG [OF gt] obtain c where c: "storing_typemap S k = int c" "c \<noteq> k"
          "(c, type_names cs ! k) \<in> set (TypeCodes S)"
          "lowest_unused tc0 (storing_typemap S) k c" by blast
        have "storing_typemap ?S k = int c" using c(1) gt by simp
        moreover have "(c, type_names cs ! k) \<in> set (TypeCodes ?S)"
          using c(3) by (simp add: insert_TypeCodes_def)
        moreover have "lowest_unused tc0 (storing_typemap ?S) k c"
        proof -
          have "\<And>t'. t' < k \<Longrightarrow> storing_typemap ?S t' = storing_typemap S t'"
            using gt by simp
          then have "lowest_unused tc0 (storing_typemap ?S) k c
              = lowest_unused tc0 (storing_typemap S) k c"
            by (rule lowest_unused_cong)
          with c(4) show ?thesis by blast
        qed
        ultimately show ?thesis using c(2) by blast
      qed
    qed
    have "typemap_inv cs tc0 k foo (Suc t) ?S"
      using n1 A B E C D1 D2 D3 F G by (rule typemap_invI)
    with step show ?thesis by blast
  qed
qed


lemma typemap_types_inv:
  assumes d: "distinct (type_names cs)"
    and kn: "k < length (type_names cs)"
    and nk: "NOTYPE cs \<noteq> k"
    and bar: "type_names cs ! k \<notin> snd ` set tc0"
    and room: "length tc0 + length (type_names cs) < TYPEMAP_SZ"
  shows "typemap_inv cs tc0 k foo t S \<Longrightarrow> t \<le> length (type_names cs) \<Longrightarrow>
    \<exists>S'. typemap_types cs t S = Some S' \<and> typemap_inv cs tc0 k foo (length (type_names cs)) S'"
proof (induction "length (type_names cs) - t" arbitrary: t S)
  case 0
  then have "t = length (type_names cs)" by simp
  moreover from this have "typemap_types cs t S = Some S"
    by (subst typemap_types.simps) (simp add: getNumberOfClasses_def)
  ultimately show ?case using "0.prems"(1) by simp
next
  case (Suc m)
  then have tn: "t < length (type_names cs)" by simp
  from typemap_inv_step [OF Suc.prems(1) d tn kn nk bar room]
  obtain S1 where S1: "typemap_type cs t S = Some S1" "typemap_inv cs tc0 k foo (Suc t) S1"
    by blast
  have "m = length (type_names cs) - Suc t" using Suc.hyps(2) by simp
  from Suc.hyps(1) [OF this S1(2)] tn
  obtain S' where S': "typemap_types cs (Suc t) S1 = Some S'"
    "typemap_inv cs tc0 k foo (length (type_names cs)) S'" by auto
  have "typemap_types cs t S = typemap_types cs (t + 1) S1"
    using tn S1(1) by (subst typemap_types.simps) (simp add: getNumberOfClasses_def)
  with S' show ?case by simp
qed

lemma set_typemap_Some:
  "set_typemap cs dbval tname S = Some S' \<Longrightarrow>
     dbval < TYPEMAP_SZ \<and>
     S' = S\<lparr>loading_typemap := (loading_typemap S)(dbval := getType cs tname),
            storing_typemap := (storing_typemap S)(getType cs tname := int dbval),
            db_typename := (db_typename S)(dbval \<mapsto> tname)\<rparr>"
  by (simp add: set_typemap_def Let_def split: if_splits)

lemma getType_lt:
  assumes "NOTYPE cs < TYPEMAP_SZ" "length (type_names cs) < TYPEMAP_SZ"
  shows "getType cs tname < TYPEMAP_SZ"
  using getType_range [of cs tname] assms by auto

lemma type_cb_rows_exists:
  assumes "NOTYPE cs < TYPEMAP_SZ" "length (type_names cs) < TYPEMAP_SZ"
  shows "\<forall>(c, nm) \<in> set rows. c < TYPEMAP_SZ \<Longrightarrow> \<exists>S'. type_cb_rows cs rows S = Some S'"
proof (induction rows arbitrary: S)
  case Nil
  show ?case by simp
next
  case (Cons r rows)
  obtain c nm where r: "r = (c, nm)" by (cases r)
  with Cons.prems have "c < TYPEMAP_SZ" by simp
  then obtain S1 where S1: "set_typemap cs c nm S = Some S1"
    using getType_lt [OF assms] by (simp add: set_typemap_def Let_def)
  from Cons.prems have "\<forall>(c, nm) \<in> set rows. c < TYPEMAP_SZ" by simp
  from Cons.IH [OF this, of S1] S1 r show ?case by simp
qed

lemma type_cb_rows_frame:
  "type_cb_rows cs rows S = Some S' \<Longrightarrow>
     TypeCodes S' = TypeCodes S
   \<and> (\<forall>i. i \<notin> fst ` set rows \<longrightarrow>
          db_typename S' i = db_typename S i \<and> loading_typemap S' i = loading_typemap S i)
   \<and> (\<forall>i. i \<in> fst ` set rows \<longrightarrow> db_typename S' i \<noteq> None \<and> i < TYPEMAP_SZ)
   \<and> (\<forall>i. db_typename S i \<noteq> None \<longrightarrow> db_typename S' i \<noteq> None)
   \<and> (\<forall>u i. storing_typemap S' u = int i \<longrightarrow>
          storing_typemap S u = int i \<or> i \<in> fst ` set rows)
   \<and> (\<forall>u. u \<notin> getType cs ` snd ` set rows \<longrightarrow> storing_typemap S' u = storing_typemap S u)"
proof (induction rows arbitrary: S)
  case Nil
  then show ?case by simp
next
  case (Cons r rows)
  obtain c nm where r: "r = (c, nm)" by (cases r)
  from Cons.prems r obtain S1 where S1: "set_typemap cs c nm S = Some S1"
    and rest: "type_cb_rows cs rows S1 = Some S'"
    by (auto split: option.splits)
  note e = set_typemap_Some [OF S1]
  note IH = Cons.IH [OF rest]
  show ?case
  proof (intro conjI allI impI)
    show "TypeCodes S' = TypeCodes S" using IH e by simp
  next
    fix i assume "i \<notin> fst ` set (r # rows)"
    then have "i \<noteq> c" "i \<notin> fst ` set rows" using r by auto
    then show "db_typename S' i = db_typename S i" using IH e by simp
  next
    fix i assume "i \<notin> fst ` set (r # rows)"
    then have "i \<noteq> c" "i \<notin> fst ` set rows" using r by auto
    then show "loading_typemap S' i = loading_typemap S i" using IH e by simp
  next
    fix i assume a: "i \<in> fst ` set (r # rows)"
    have "db_typename S1 c \<noteq> None" using e by simp
    then have "db_typename S' c \<noteq> None" using IH by blast
    then show "db_typename S' i \<noteq> None" using a r IH by auto
  next
    fix i assume a: "i \<in> fst ` set (r # rows)"
    then show "i < TYPEMAP_SZ" using r e IH by auto
  next
    fix i assume "db_typename S i \<noteq> None"
    then have "db_typename S1 i \<noteq> None" using e by simp
    then show "db_typename S' i \<noteq> None" using IH by blast
  next
    fix u i assume "storing_typemap S' u = int i"
    then have "storing_typemap S1 u = int i \<or> i \<in> fst ` set rows" using IH by blast
    then show "storing_typemap S u = int i \<or> i \<in> fst ` set (r # rows)"
      using e r by (auto split: if_splits)
  next
    fix u assume "u \<notin> getType cs ` snd ` set (r # rows)"
    then have "u \<noteq> getType cs nm" "u \<notin> getType cs ` snd ` set rows" using r by auto
    then show "storing_typemap S' u = storing_typemap S u" using IH e by simp
  qed
qed

lemma type_cb_rows_row:
  "type_cb_rows cs rows S = Some S' \<Longrightarrow> distinct (map fst rows) \<Longrightarrow> (k, foo) \<in> set rows \<Longrightarrow>
     db_typename S' k = Some foo \<and> loading_typemap S' k = getType cs foo"
proof (induction rows arbitrary: S)
  case Nil
  then show ?case by simp
next
  case (Cons r rows)
  obtain c nm where r: "r = (c, nm)" by (cases r)
  from Cons.prems r obtain S1 where S1: "set_typemap cs c nm S = Some S1"
    and rest: "type_cb_rows cs rows S1 = Some S'"
    by (auto split: option.splits)
  note e = set_typemap_Some [OF S1]
  show ?case
  proof (cases "(k, foo) \<in> set rows")
    case True
    with Cons.IH [OF rest] Cons.prems(2) show ?thesis by simp
  next
    case False
    with Cons.prems(3) r have kc: "k = c" "foo = nm" by auto
    from Cons.prems(2) r have "c \<notin> fst ` set rows" by auto
    with type_cb_rows_frame [OF rest] have
      "db_typename S' c = db_typename S1 c" "loading_typemap S' c = loading_typemap S1 c"
      by blast+
    with e kc show ?thesis by simp
  qed
qed

lemma type_cb_rows_card:
  "type_cb_rows cs rows S = Some S' \<Longrightarrow>
     card {i. i < TYPEMAP_SZ \<and> db_typename S' i \<noteq> None}
       \<le> card {i. i < TYPEMAP_SZ \<and> db_typename S i \<noteq> None} + length rows"
proof (induction rows arbitrary: S)
  case Nil
  then show ?case by simp
next
  case (Cons r rows)
  obtain c nm where r: "r = (c, nm)" by (cases r)
  from Cons.prems r obtain S1 where S1: "set_typemap cs c nm S = Some S1"
    and rest: "type_cb_rows cs rows S1 = Some S'"
    by (auto split: option.splits)
  note e = set_typemap_Some [OF S1]
  have "db_typename S1 = (db_typename S)(c \<mapsto> nm)" using e by simp
  then have "card {i. i < TYPEMAP_SZ \<and> db_typename S1 i \<noteq> None}
      \<le> Suc (card {i. i < TYPEMAP_SZ \<and> db_typename S i \<noteq> None})"
    using card_used_insert [of "db_typename S" c nm] by simp
  with Cons.IH [OF rest] show ?case by simp
qed


text \<open>
  C5: when \<^verbatim>\<open>TypeCodes\<close> holds a row \<open>(k, foo)\<close> (in the claim \<open>(7, "Foo")\<close>) whose name is
  not a runtime type, and the runtime uses the code \<open>k\<close> for the type \<open>bar\<close> (\<open>"Bar"\<close>),
  which has no row yet, then after \<^verbatim>\<open>setup_typemap\<close> the database code \<open>c\<close> of \<open>bar\<close> is
  the lowest slot unused when \<open>bar\<close> is handled, \<open>c \<noteq> k\<close>, the table holds both
  \<open>(k, foo)\<close> and \<open>(c, bar)\<close>, and the database code \<open>k\<close> maps to \<^verbatim>\<open>NOTYPE\<close>.
\<close>

theorem setup_typemap_reconciles:
  assumes fresh: "\<not> type_map_was_loaded st"
    and row: "(k, foo) \<in> set (TypeCodes st)"
    and codes: "distinct (map fst (TypeCodes st))"
    and small: "\<forall>(c, nm) \<in> set (TypeCodes st). c < TYPEMAP_SZ"
    and foo: "foo \<notin> set (type_names cs)"
    and kn: "k < length (type_names cs)" and bar: "type_names cs ! k = bar"
    and d: "distinct (type_names cs)"
    and nobar: "bar \<notin> snd ` set (TypeCodes st)"
    and nk: "NOTYPE cs \<noteq> k" and nsz: "NOTYPE cs < TYPEMAP_SZ"
    and room: "length (TypeCodes st) + length (type_names cs) < TYPEMAP_SZ"
  shows "\<exists>st' c. setup_typemap cs st = Some st'
      \<and> storing_typemap st' k = int c \<and> c \<noteq> k
      \<and> lowest_unused (TypeCodes st) (storing_typemap st') k c
      \<and> (k, foo) \<in> set (TypeCodes st') \<and> (c, bar) \<in> set (TypeCodes st')
      \<and> loading_typemap st' k = NOTYPE cs"
proof -
  let ?tc0 = "TypeCodes st"
  let ?n = "length (type_names cs)"
  define st0 where "st0 = st\<lparr>loading_typemap := (\<lambda>i. NOTYPE cs),
                      storing_typemap := (\<lambda>i. -1),
                      db_typename := (\<lambda>i. None)\<rparr>"
  have tc_st0: "TypeCodes st0 = ?tc0" by (simp add: st0_def)
  have nsz': "?n < TYPEMAP_SZ" using room by simp
  from type_cb_rows_exists [OF nsz nsz' small]
  obtain S1 where S1: "type_cb_rows cs ?tc0 st0 = Some S1" by blast
  note fr = type_cb_rows_frame [OF S1]
  have tc1: "TypeCodes S1 = ?tc0" using fr tc_st0 by simp
  have f2: "\<And>i. i \<notin> fst ` set ?tc0 \<Longrightarrow> db_typename S1 i = None"
    using fr by (simp add: st0_def)
  have f3: "\<And>i. i \<in> fst ` set ?tc0 \<Longrightarrow> db_typename S1 i \<noteq> None \<and> i < TYPEMAP_SZ"
    using fr by blast
  have f5: "\<And>u i. storing_typemap S1 u = int i \<Longrightarrow> i \<in> fst ` set ?tc0"
  proof -
    fix u i assume "storing_typemap S1 u = int i"
    with fr have "storing_typemap st0 u = int i \<or> i \<in> fst ` set ?tc0" by blast
    then show "i \<in> fst ` set ?tc0" by (simp add: st0_def)
  qed
  have f6: "\<And>u. u \<notin> getType cs ` snd ` set ?tc0 \<Longrightarrow> storing_typemap S1 u = -1"
    using fr by (simp add: st0_def)
  have k_not: "k \<notin> getType cs ` snd ` set ?tc0"
  proof
    assume "k \<in> getType cs ` snd ` set ?tc0"
    then obtain nm where nm: "nm \<in> snd ` set ?tc0" "k = getType cs nm" by blast
    from getType_range [of cs nm] nm(2) nk have "type_names cs ! k = nm" by auto
    with bar nm(1) nobar show False by simp
  qed
  have c1: "db_typename S1 k = Some foo" "loading_typemap S1 k = NOTYPE cs"
    using type_cb_rows_row [OF S1 codes row] getType_unknown [OF foo] by simp_all
  have c3: "\<forall>i. db_typename S1 i \<noteq> None \<longleftrightarrow>
      (i \<in> fst ` set ?tc0 \<or> (\<exists>t'<0. storing_typemap S1 t' = int i))"
  proof (intro allI iffI)
    fix i assume "db_typename S1 i \<noteq> None"
    with f2 [of i] show "i \<in> fst ` set ?tc0 \<or> (\<exists>t'<0. storing_typemap S1 t' = int i)"
      by blast
  next
    fix i assume "i \<in> fst ` set ?tc0 \<or> (\<exists>t'<0. storing_typemap S1 t' = int i)"
    then have "i \<in> fst ` set ?tc0" by simp
    with f3 [of i] show "db_typename S1 i \<noteq> None" by blast
  qed
  have c4: "\<forall>u i. storing_typemap S1 u = int i \<longrightarrow> db_typename S1 i \<noteq> None"
  proof (intro allI impI)
    fix u i assume "storing_typemap S1 u = int i"
    then have "i \<in> fst ` set ?tc0" by (rule f5)
    with f3 [of i] show "db_typename S1 i \<noteq> None" by blast
  qed
  have c5: "\<forall>i. db_typename S1 i \<noteq> None \<longrightarrow> i < TYPEMAP_SZ"
  proof (intro allI impI)
    fix i assume "db_typename S1 i \<noteq> None"
    with f2 [of i] have "i \<in> fst ` set ?tc0" by blast
    with f3 [of i] show "i < TYPEMAP_SZ" by blast
  qed
  have c6: "card {i. i < TYPEMAP_SZ \<and> db_typename S1 i \<noteq> None} \<le> length ?tc0 + 0"
    using type_cb_rows_card [OF S1] by (simp add: st0_def)
  have c7: "set ?tc0 \<subseteq> set (TypeCodes S1)" using tc1 by simp
  have c8: "fst ` set (TypeCodes S1) \<subseteq> {i. db_typename S1 i \<noteq> None}"
    using tc1 f3 by auto
  have c9: "snd ` set (TypeCodes S1)
      \<subseteq> snd ` set ?tc0 \<union> (\<lambda>t'. type_names cs ! t') ` {..<0}"
    using tc1 by simp
  have c10: "0 \<le> k \<longrightarrow> storing_typemap S1 k = -1" using f6 [OF k_not] by simp
  have c11: "k < 0 \<longrightarrow>
        (\<exists>c. storing_typemap S1 k = int c \<and> c \<noteq> k
           \<and> (c, type_names cs ! k) \<in> set (TypeCodes S1)
           \<and> lowest_unused ?tc0 (storing_typemap S1) k c)" by simp
  have inv0: "typemap_inv cs ?tc0 k foo 0 S1"
    using c1 c3 c4 c5 c6 c7 c8 c9 c10 c11 by (rule typemap_invI)
  have bar': "type_names cs ! k \<notin> snd ` set ?tc0" using bar nobar by simp
  from typemap_types_inv [OF d kn nk bar' room inv0]
  obtain S2 where S2: "typemap_types cs 0 S1 = Some S2" "typemap_inv cs ?tc0 k foo ?n S2"
    by auto
  let ?st' = "S2\<lparr>type_map_was_loaded := True\<rparr>"
  have run: "setup_typemap cs st = Some ?st'"
    using fresh S1 S2(1) by (simp add: setup_typemap_def st0_def [symmetric] tc_st0)
  note J = S2(2) [unfolded typemap_inv_def]
  note i1 = J [THEN conjunct1] J [THEN conjunct2, THEN conjunct1]
  note J7 = J [THEN conjunct2, THEN conjunct2, THEN conjunct2, THEN conjunct2,
      THEN conjunct2, THEN conjunct2]
  note i7 = J7 [THEN conjunct1]
  note i11 = J7 [THEN conjunct2, THEN conjunct2, THEN conjunct2, THEN conjunct2]
  from i11 kn obtain c where c: "storing_typemap S2 k = int c" "c \<noteq> k"
    "(c, type_names cs ! k) \<in> set (TypeCodes S2)"
    "lowest_unused ?tc0 (storing_typemap S2) k c" by blast
  have "(k, foo) \<in> set (TypeCodes S2)" using i7 row by blast
  with run c i1 bar show ?thesis by simp
qed

theorem setup_typemap_reconciles_witness:
  "\<exists>st' c. setup_typemap
        \<lparr>type_names = [''T0'', ''T1'', ''T2'', ''T3'', ''T4'', ''T5'', ''T6'', ''Bar'', ''T8''],
         NOTYPE = 65535\<rparr>
        \<lparr>loading_typemap = (\<lambda>i. 0), storing_typemap = (\<lambda>i. 0), db_typename = (\<lambda>i. None),
         TypeCodes = [(7, ''Foo'')], type_map_was_loaded = False\<rparr> = Some st'
      \<and> storing_typemap st' 7 = int c \<and> c \<noteq> 7
      \<and> lowest_unused [(7, ''Foo'')] (storing_typemap st') 7 c
      \<and> (7, ''Foo'') \<in> set (TypeCodes st') \<and> (c, ''Bar'') \<in> set (TypeCodes st')
      \<and> loading_typemap st' 7 = 65535"
  using setup_typemap_reconciles [of
      "\<lparr>loading_typemap = (\<lambda>i. 0), storing_typemap = (\<lambda>i. 0), db_typename = (\<lambda>i. None),
         TypeCodes = [(7, ''Foo'')], type_map_was_loaded = False\<rparr>"
      7 "''Foo''"
      "\<lparr>type_names = [''T0'', ''T1'', ''T2'', ''T3'', ''T4'', ''T5'', ''T6'', ''Bar'', ''T8''],
         NOTYPE = 65535\<rparr>"
      "''Bar''"]
  by (simp add: TYPEMAP_SZ_def)

subsection \<open>Storing a single atom\<close>


lemma exec_frame [simp]:
  "next_valid (snd (exec st s)) = next_valid s"
  "tlb_uuid (snd (exec st s)) = tlb_uuid s"
  "tlb_brk (snd (exec st s)) = tlb_brk s"
  "local_id_cache (snd (exec st s)) = local_id_cache s"
  "id_create_cache (snd (exec st s)) = id_create_cache s"
  "table_id_cache (snd (exec st s)) = table_id_cache s"
  "typemap (snd (exec st s)) = typemap s"
  "max_height (snd (exec st s)) = max_height s"
  "store_count (snd (exec st s)) = store_count s"
  "num_node_updates (snd (exec st s)) = num_node_updates s"
  "num_node_inserts (snd (exec st s)) = num_node_inserts s"
  "num_link_updates (snd (exec st s)) = num_link_updates s"
  "num_link_inserts (snd (exec st s)) = num_link_inserts s"
  "Atoms_columns (snd (exec st s)) = Atoms_columns s"
  by (cases st; auto simp: exec_def Let_def split: option.splits prod.splits if_splits)+

lemma same_db_refl [simp]: "same_db s s"
  by (simp add: same_db_def)

lemma same_db_sym: "same_db s t \<Longrightarrow> same_db t s"
  by (simp add: same_db_def)



lemma server_run_Nil [simp]: "server_run [] s = s"
  by (simp add: server_run_def)

lemma server_run_Cons [simp]: "server_run (st # sts) s = server_run sts (snd (exec st s))"
  by (simp add: server_run_def)

lemma server_run_append [simp]: "server_run (xs @ ys) s = server_run ys (server_run xs s)"
  by (simp add: server_run_def)


lemma space_ids_append [simp]: "space_ids (xs @ ys) = space_ids xs @ space_ids ys"
  by (induction xs rule: space_ids.induct) simp_all


lemma store_atomtable_id_frame [simp]:
  "next_valid (store_atomtable_id tab s) = next_valid s"
  "tlb_uuid (store_atomtable_id tab s) = tlb_uuid s"
  "tlb_brk (store_atomtable_id tab s) = tlb_brk s"
  "local_id_cache (store_atomtable_id tab s) = local_id_cache s"
  "id_create_cache (store_atomtable_id tab s) = id_create_cache s"
  "typemap (store_atomtable_id tab s) = typemap s"
  "max_height (store_atomtable_id tab s) = max_height s"
  "store_count (store_atomtable_id tab s) = store_count s"
  "num_node_updates (store_atomtable_id tab s) = num_node_updates s"
  "num_node_inserts (store_atomtable_id tab s) = num_node_inserts s"
  "num_link_updates (store_atomtable_id tab s) = num_link_updates s"
  "num_link_inserts (store_atomtable_id tab s) = num_link_inserts s"
  by (induction tab s rule: store_atomtable_id.induct;
      simp add: Let_def split: option.splits)+


lemma execute_store_frame [simp]:
  "next_valid (execute_store rt h u q s) = next_valid s"
  "tlb_uuid (execute_store rt h u q s) = tlb_uuid s"
  "tlb_brk (execute_store rt h u q s) = tlb_brk s"
  "local_id_cache (execute_store rt h u q s) = insert u (local_id_cache s)"
  "id_create_cache (execute_store rt h u q s) = id_create_cache s - {u}"
  "typemap (execute_store rt h u q s) = typemap s"
  "max_height (execute_store rt h u q s) = max_height s"
  "store_count (execute_store rt h u q s) = store_count s + 1"
  "num_node_updates (execute_store rt h u q s) = num_node_updates s"
  "num_node_inserts (execute_store rt h u q s) = num_node_inserts s"
  "num_link_updates (execute_store rt h u q s) = num_link_updates s"
  "num_link_inserts (execute_store rt h u q s) = num_link_inserts s"
proof -
  obtain ok s1 where e: "exec q s = (ok, s1)" by (cases "exec q s")
  have fr: "next_valid s1 = next_valid s" "tlb_uuid s1 = tlb_uuid s" "tlb_brk s1 = tlb_brk s"
    "local_id_cache s1 = local_id_cache s" "id_create_cache s1 = id_create_cache s"
    "typemap s1 = typemap s" "max_height s1 = max_height s" "store_count s1 = store_count s"
    "num_node_updates s1 = num_node_updates s" "num_node_inserts s1 = num_node_inserts s"
    "num_link_updates s1 = num_link_updates s" "num_link_inserts s1 = num_link_inserts s"
    using exec_frame [of q s] e by simp_all
  show "next_valid (execute_store rt h u q s) = next_valid s"
    "tlb_uuid (execute_store rt h u q s) = tlb_uuid s"
    "tlb_brk (execute_store rt h u q s) = tlb_brk s"
    "local_id_cache (execute_store rt h u q s) = insert u (local_id_cache s)"
    "id_create_cache (execute_store rt h u q s) = id_create_cache s - {u}"
    "typemap (execute_store rt h u q s) = typemap s"
    "max_height (execute_store rt h u q s) = max_height s"
    "store_count (execute_store rt h u q s) = store_count s + 1"
    "num_node_updates (execute_store rt h u q s) = num_node_updates s"
    "num_node_inserts (execute_store rt h u q s) = num_node_inserts s"
    "num_link_updates (execute_store rt h u q s) = num_link_updates s"
    "num_link_inserts (execute_store rt h u q s) = num_link_inserts s"
    by (simp_all add: execute_store_def e Let_def add_id_to_cache_def fr split: option.splits)
qed




















lemma setup_typemap_example:
  "\<exists>tm. setup_typemap (classserver example_runtime) (typemap new_storage) = Some tm
     \<and> storing_typemap tm 9 = 9 \<and> storing_typemap tm 10 = 10 \<and> type_map_was_loaded tm"
  by (simp add: example_runtime_def new_storage_def setup_typemap_def typemap_types.simps
      typemap_type_def set_typemap_def getType_def getTypeName_def getNumberOfClasses_def
      TYPEMAP_SZ_def insert_TypeCodes_def Let_def)

lemma first_time_columns_node:
  assumes "t < TYPEMAP_SZ"
  shows "fst (first_time_columns rt (Node t n) aheight cols s) =
     (if 2688 < length n
      then Inl (IOException ''Error: do_store_single_atom: Maxiumum Node name size is 2700.'')
      else Inr (STMTI ''height'' 0 (STMT ''name'' ('' $ocp$'' @ n @ ''$ocp$ '')
             (STMTI ''type'' (nat (storing_typemap (typemap s) t mod 2 ^ 32))
               (STMT ''space'' (case getAtomTable (atoms rt) (Node t n) of
                    None \<Rightarrow> ''0'' | Some tab \<Rightarrow> ''1'') cols)))))"
  using assms by (simp add: first_time_columns_def Let_def)

text \<open>
  C7: a node whose name has at most 2700 bytes is stored without the size-limit error.
  The code at a name of exactly 2700 bytes, stored for the first time: the limit is
  tested on the name between its dollar quotes, twelve bytes longer, so the exception
  \<open>Maxiumum Node name size is 2700\<close> is thrown (for every name above 2688 bytes, see
  \<open>first_time_columns_node\<close>), and no row is stored.
\<close>

theorem node_name_2700_raises:
  "fst (do_store_single_atom example_runtime (Node 9 (replicate 2700 CHR ''a'')) 0 new_storage)
     = Some (IOException ''Error: do_store_single_atom: Maxiumum Node name size is 2700.'')
   \<and> Atoms (snd (do_store_single_atom example_runtime (Node 9 (replicate 2700 CHR ''a'')) 0
        new_storage)) = []"
proof -
  obtain tm where tm: "setup_typemap (classserver example_runtime) (typemap new_storage) = Some tm"
    using setup_typemap_example by blast
  have a: "tlb_uuid new_storage (Node 9 (replicate 2700 CHR ''a'')) = None"
    "local_id_cache new_storage = {}" "id_create_cache new_storage = {}"
    "Atoms new_storage = []"
    by (simp_all add: new_storage_def)
  show ?thesis
    by (simp add: do_store_single_atom_def tm addAtom_def a maybe_create_id_def
        count_store_def first_time_columns_def TYPEMAP_SZ_def Let_def)
qed




subsection \<open>One \<^verbatim>\<open>INSERT\<close> for each atom\<close>








end
